theory Spec2Isabelle
  imports Main "HOL-Library.AList"
begin

section \<open>Strings and numbers as the TypeScript code uses them\<close>

text \<open>
  A JavaScript string is modelled as a HOL \<open>string\<close>: a list of code units below 256.
  Among these, the white space and line terminator characters that
  \<open>String.prototype.trim\<close> and the regular expression class \<open>\s\<close> remove are tab, line
  feed, vertical tab, form feed, carriage return, space and the no-break space U+00A0.
\<close>

definition is_white :: "char \<Rightarrow> bool" where
  "is_white c = (c = CHR 0x09 \<or> c = CHR 0x0A \<or> c = CHR 0x0B \<or> c = CHR 0x0C
                 \<or> c = CHR 0x0D \<or> c = CHR 0x20 \<or> c = CHR 0xA0)"

definition trim :: "string \<Rightarrow> string" where
  "trim s = rev (dropWhile is_white (rev (dropWhile is_white s)))"

text \<open>\<open>x || d\<close> on an optional string: \<open>undefined\<close> and the empty string are falsy.\<close>

definition js_or :: "string option \<Rightarrow> string \<Rightarrow> string" where
  "js_or x d = (case x of None \<Rightarrow> d | Some v \<Rightarrow> if v = [] then d else v)"

definition digit_char :: "nat \<Rightarrow> char" where
  "digit_char d = char_of (48 + d)"

definition digit_val :: "char \<Rightarrow> nat" where
  "digit_val c = of_char c - 48"

definition is_digit :: "char \<Rightarrow> bool" where
  "is_digit c = (48 \<le> (of_char c :: nat) \<and> (of_char c :: nat) \<le> 57)"

text \<open>
  \<open>String(n)\<close> for a non-negative integer \<open>n\<close>: its decimal digits (JavaScript switches
  to exponent notation only from \<open>1e21\<close>, far beyond any batch position).
\<close>

fun number_toString :: "nat \<Rightarrow> string" where
  "number_toString n =
     (if n < 10 then [digit_char n]
      else number_toString (n div 10) @ [digit_char (n mod 10)])"

declare number_toString.simps [simp del]

text \<open>\<open>s.padStart(targetLength, c)\<close> with a one-character pad string.\<close>

definition padStart :: "nat \<Rightarrow> char \<Rightarrow> string \<Rightarrow> string" where
  "padStart targetLength c s = replicate (targetLength - length s) c @ s"

text \<open>The value a string of decimal digits denotes, read left to right.\<close>

definition read_decimal :: "string \<Rightarrow> nat" where
  "read_decimal s = foldl (\<lambda>acc c. 10 * acc + digit_val c) 0 s"

section \<open>JavaScript maps and plain objects with string keys\<close>

text \<open>
  A \<open>Map<string, string>\<close> is the list of its entries in insertion order; its keys are
  pairwise distinct. \<open>set\<close> overwrites the value of a key that is present, in place, and
  appends a new key.
\<close>

type_synonym js_map = "(string \<times> string) list"

definition Map_set :: "string \<Rightarrow> string \<Rightarrow> js_map \<Rightarrow> js_map" where
  "Map_set k v m = AList.update k v m"

definition Map_get :: "js_map \<Rightarrow> string \<Rightarrow> string option" where
  "Map_get m k = map_of m k"

definition new_Map :: "(string \<times> string) list \<Rightarrow> js_map" where
  "new_Map entries = fold (\<lambda>(k, v). Map_set k v) entries []"

text \<open>
  A plain object (\<open>Record<string, string>\<close>) is the list of its own properties in the
  order \<open>Object.entries\<close> enumerates them: the keys that are array indices (decimal
  numerals without a leading zero, below \<open>2^32 - 1\<close>) first, in ascending numeric order, then the other
  keys in the order of their creation.
\<close>

type_synonym js_object = "(string \<times> string) list"

definition decimal_value :: "string \<Rightarrow> int" where
  "decimal_value s = foldl (\<lambda>acc c. 10 * acc + int (digit_val c)) 0 s"

definition is_array_index :: "string \<Rightarrow> bool" where
  "is_array_index k =
     (k \<noteq> [] \<and> list_all is_digit k \<and> (hd k \<noteq> CHR ''0'' \<or> k = ''0'')
      \<and> decimal_value k < 4294967295)"

fun object_insert :: "string \<Rightarrow> string \<Rightarrow> js_object \<Rightarrow> js_object" where
  "object_insert k v [] = [(k, v)]"
| "object_insert k v ((k', v') # ps) =
     (if is_array_index k
         \<and> (\<not> is_array_index k' \<or> decimal_value k < decimal_value k')
      then (k, v) # (k', v') # ps
      else (k', v') # object_insert k v ps)"

definition CreateDataProperty :: "string \<Rightarrow> string \<Rightarrow> js_object \<Rightarrow> js_object" where
  "CreateDataProperty k v obj =
     (if map_of obj k = None then object_insert k v obj else AList.update k v obj)"

definition Object_fromEntries :: "(string \<times> string) list \<Rightarrow> js_object" where
  "Object_fromEntries entries = fold (\<lambda>(k, v). CreateDataProperty k v) entries []"

definition Object_entries :: "js_object \<Rightarrow> (string \<times> string) list" where
  "Object_entries obj = obj"

section \<open>models/Email.ts\<close>

text \<open>
  A \<open>Date\<close> that the program obtained from the clock or from \<open>parseDate\<close> holds a valid
  time value: milliseconds since the epoch. Where the code can build an invalid date
  (\<open>new Date\<close> of an unparsable string or of \<open>Infinity\<close>) the model uses \<open>Date option\<close>,
  \<open>None\<close> being the invalid date.
\<close>

type_synonym Date = int

text \<open>
  A field whose name is a keyword of Isabelle or a constant of HOL carries a prefix here
  and in the records below: \<open>id\<close> is \<open>email_id\<close>, \<open>from\<close>, \<open>to\<close>, \<open>cc\<close> are
  \<open>email_from\<close>, \<open>email_to\<close>, \<open>email_cc\<close>, \<open>body.plain\<close> and \<open>body.html\<close> are
  \<open>body_plain\<close> and \<open>body_html\<close>, the \<open>note\<close> of a forward command is \<open>cmd_note\<close>; records
  with the same field names get a prefix each.
\<close>

record EmailAddress =
  name :: string
  address :: string

record Attachment =
  filename :: string
  mimeType :: string
  att_size :: nat

record Email =
  email_id :: string
  threadId :: string
  referenceId :: string
  email_from :: EmailAddress
  email_to :: "EmailAddress list"
  email_cc :: "EmailAddress list option"
  subject :: string
  snippet :: string
  body_plain :: string
  body_html :: "string option"
  date :: Date
  labels :: "string list"
  attachments :: "Attachment list"
  isUnread :: bool

definition generateReferenceId :: "nat \<Rightarrow> string" where
  "generateReferenceId index =
     ''EMAIL-'' @ padStart 3 (CHR ''0'') (number_toString (index + 1))"

section \<open>models/Summary.ts\<close>

datatype Priority = high | medium | low

record ActionItem =
  ai_referenceId :: string
  ai_priority :: Priority
  ai_description :: string
  ai_suggestedAction :: string
  ai_fromEmail :: string
  ai_subject :: string

record InformationalItem =
  ii_referenceId :: string
  ii_description :: string
  ii_fromEmail :: string

record Summary =
  summary_id :: string
  generatedAt :: Date
  periodStart :: "Date option"
  periodEnd :: Date
  totalEmails :: nat
  unreadCount :: nat
  executiveSummary :: string
  actionItems :: "ActionItem list"
  informational :: "InformationalItem list"
  emailMappings :: js_map

text \<open>An optional property of an object is an \<open>option\<close>: \<open>None\<close> when the property is absent.\<close>

record StoredSummary =
  stored_id :: string
  stored_generatedAt :: string
  stored_emailMappings :: js_object
  stored_threadId :: "string option"
  stored_messageId :: "string option"

record LoadedSummary =
  loaded_emailMappings :: js_map
  loaded_threadId :: "string option"
  loaded_messageId :: "string option"

text \<open>
  \<open>toISOString\<close> is the formatting function of the JavaScript library; it is a parameter
  of the model.
\<close>

definition summaryToStorable ::
  "(Date \<Rightarrow> string) \<Rightarrow> Summary \<Rightarrow> string option \<Rightarrow> string option \<Rightarrow> StoredSummary" where
  "summaryToStorable toISOString summary threadId' messageId' =
     (let result = \<lparr> stored_id = summary_id summary,
                      stored_generatedAt = toISOString (generatedAt summary),
                      stored_emailMappings = Object_fromEntries (emailMappings summary),
                      stored_threadId = None,
                      stored_messageId = None \<rparr>;
          result = (if threadId' \<noteq> None then result\<lparr>stored_threadId := threadId'\<rparr> else result);
          result = (if messageId' \<noteq> None then result\<lparr>stored_messageId := messageId'\<rparr> else result)
      in result)"

definition loadStoredSummary :: "StoredSummary \<Rightarrow> LoadedSummary" where
  "loadStoredSummary stored =
     (let result = \<lparr> loaded_emailMappings = new_Map (Object_entries (stored_emailMappings stored)),
                      loaded_threadId = None,
                      loaded_messageId = None \<rparr>;
          result = (if stored_threadId stored \<noteq> None
                    then result\<lparr>loaded_threadId := stored_threadId stored\<rparr> else result);
          result = (if stored_messageId stored \<noteq> None
                    then result\<lparr>loaded_messageId := stored_messageId stored\<rparr> else result)
      in result)"

section \<open>services/ai/EmailSummarizer.ts\<close>

record ResponseActionItem =
  ra_referenceId :: string
  ra_priority :: Priority
  ra_description :: string
  ra_suggestedAction :: string

record ResponseInformationalItem =
  ri_referenceId :: string
  ri_description :: string

record SummaryResponse =
  resp_executiveSummary :: string
  resp_actionItems :: "ResponseActionItem list"
  resp_informational :: "ResponseInformationalItem list"

text \<open>
  \<open>new Date(Math.min(...values))\<close>: the least time value, and the invalid date for no
  argument at all (\<open>Math.min()\<close> is \<open>Infinity\<close>).
\<close>

definition Math_min_date :: "Date list \<Rightarrow> Date option" where
  "Math_min_date values = (case values of [] \<Rightarrow> None | t # ts \<Rightarrow> Some (fold min ts t))"

text \<open>
  \<open>createSummary\<close>; the fresh identifier (\<open>uuidv4()\<close>) and the clock reading
  (\<open>new Date()\<close>) are parameters.
\<close>

definition createSummary :: "string \<Rightarrow> Date \<Rightarrow> Email list \<Rightarrow> SummaryResponse \<Rightarrow> Summary" where
  "createSummary uuid now emails response =
     (let emailMappings' = fold (\<lambda>email m. Map_set (referenceId email) (email_id email) m) emails [];
          actionItems' = map (\<lambda>item.
             let email = find (\<lambda>e. referenceId e = ra_referenceId item) emails
             in \<lparr> ai_referenceId = ra_referenceId item,
                  ai_priority = ra_priority item,
                  ai_description = ra_description item,
                  ai_suggestedAction = ra_suggestedAction item,
                  ai_fromEmail = js_or (map_option (\<lambda>e. address (email_from e)) email) [],
                  ai_subject = js_or (map_option subject email) [] \<rparr>) (resp_actionItems response);
          informational' = map (\<lambda>item.
             let email = find (\<lambda>e. referenceId e = ri_referenceId item) emails
             in \<lparr> ii_referenceId = ri_referenceId item,
                  ii_description = ri_description item,
                  ii_fromEmail = js_or (map_option (\<lambda>e. address (email_from e)) email) [] \<rparr>)
             (resp_informational response);
          unreadCount' = length (filter isUnread emails)
      in \<lparr> summary_id = uuid,
           generatedAt = now,
           periodStart = Math_min_date (map date emails),
           periodEnd = now,
           totalEmails = length emails,
           unreadCount = unreadCount',
           executiveSummary = resp_executiveSummary response,
           actionItems = actionItems',
           informational = informational',
           emailMappings = emailMappings' \<rparr>)"

definition createEmptySummary :: "string \<Rightarrow> Date \<Rightarrow> Summary" where
  "createEmptySummary uuid now =
     \<lparr> summary_id = uuid,
       generatedAt = now,
       periodStart = Some now,
       periodEnd = now,
       totalEmails = 0,
       unreadCount = 0,
       executiveSummary = ''No new emails to summarize.'',
       actionItems = [],
       informational = [],
       emailMappings = new_Map [] \<rparr>"

section \<open>models/Command.ts\<close>

text \<open>
  The tagged union \<open>Command\<close>: one constructor for each value of the discriminant
  \<open>type\<close>, every one with the reference token and the optional resolved message id.
\<close>

datatype Command =
    ReplyCommand (targetRef: string) (targetGmailId: "string option") (content: string)
  | ForwardCommand (targetRef: string) (targetGmailId: "string option")
      (forwardTo: string) (cmd_note: "string option")
  | ArchiveCommand (targetRef: string) (targetGmailId: "string option")
  | DeleteCommand (targetRef: string) (targetGmailId: "string option")
  | MarkReadCommand (targetRef: string) (targetGmailId: "string option")
  | MarkUnreadCommand (targetRef: string) (targetGmailId: "string option")
  | StarCommand (targetRef: string) (targetGmailId: "string option")
  | UnstarCommand (targetRef: string) (targetGmailId: "string option")
  | LabelCommand (targetRef: string) (targetGmailId: "string option") (labelName: string)

fun command_type :: "Command \<Rightarrow> string" where
  "command_type (ReplyCommand _ _ _) = ''reply''"
| "command_type (ForwardCommand _ _ _ _) = ''forward''"
| "command_type (ArchiveCommand _ _) = ''archive''"
| "command_type (DeleteCommand _ _) = ''delete''"
| "command_type (MarkReadCommand _ _) = ''mark_read''"
| "command_type (MarkUnreadCommand _ _) = ''mark_unread''"
| "command_type (StarCommand _ _) = ''star''"
| "command_type (UnstarCommand _ _) = ''unstar''"
| "command_type (LabelCommand _ _ _) = ''label''"

text \<open>The nine values of the type \<open>CommandType\<close>.\<close>

definition CommandType :: "string list" where
  "CommandType = [''reply'', ''forward'', ''archive'', ''delete'', ''mark_read'',
                  ''mark_unread'', ''star'', ''unstar'', ''label'']"

record CommandResult =
  command :: Command
  success :: bool
  error :: "string option"
  details :: "string option"

section \<open>Thrown values, the configuration and the outside world\<close>

text \<open>
  A thrown value is an instance of \<open>Error\<close> with its message, or anything else; the
  handlers tell the two apart with \<open>error instanceof Error\<close>.
\<close>

datatype thrown = Error string | Thrown_other

record Config =
  emailLookbackHours :: nat
  maxEmailsPerRun :: nat
  enableCommandProcessing :: bool
  dryRun :: bool
  user_email :: string

text \<open>A message of a \<open>users.messages.list\<close> response: its identifier may be missing.\<close>

record Message =
  msg_id :: "string option"

text \<open>
  The calls that leave the modelled code, with their arguments: the provider's
  \<open>users.messages.list\<close> (query, \<open>maxResults\<close>) and \<open>users.messages.get\<close>, the methods of
  \<open>GmailClient\<close> whose bodies only talk to the provider, the language model's
  \<open>complete\<close> and the lookup of the latest stored summary.
\<close>

datatype call =
    MessagesList string nat
  | MessagesGet string
  | GetMessageContent string
  | ReplyToEmail string string string string string
  | SendEmail string string string "string option"
  | ArchiveEmail string
  | DeleteEmail string
  | MarkAsRead string
  | MarkAsUnread string
  | StarEmail string
  | UnstarEmail string
  | AddLabel string string
  | Complete string
  | LoadLatestSummary

fun state_changing :: "call \<Rightarrow> bool" where
  "state_changing (ReplyToEmail _ _ _ _ _) = True"
| "state_changing (SendEmail _ _ _ _) = True"
| "state_changing (ArchiveEmail _) = True"
| "state_changing (DeleteEmail _) = True"
| "state_changing (MarkAsRead _) = True"
| "state_changing (MarkAsUnread _) = True"
| "state_changing (StarEmail _) = True"
| "state_changing (UnstarEmail _) = True"
| "state_changing (AddLabel _ _) = True"
| "state_changing _ = False"

fun is_Complete :: "call \<Rightarrow> bool" where
  "is_Complete (Complete _) = True"
| "is_Complete _ = False"

fun is_GetMessageContent :: "call \<Rightarrow> bool" where
  "is_GetMessageContent (GetMessageContent _) = True"
| "is_GetMessageContent _ = False"

section \<open>services/ai/CommandParser.ts: the model's answer\<close>

record ParsedCommand =
  p_type :: string
  p_targetRef :: string
  p_content :: "string option"
  p_forwardTo :: "string option"
  p_note :: "string option"
  p_labelName :: "string option"

text \<open>
  The value \<open>JSON.parse\<close> returns is cast to \<open>ParseResponse\<close> without a check, so either
  property may be missing: \<open>None\<close>.
\<close>

record ParseResponse =
  commands :: "ParsedCommand list option"
  unrecognized :: "string list option"

section \<open>The collaborators of the handlers\<close>

text \<open>
  Each collaborator takes the state \<open>'w\<close> of the outside world
  (mailbox, language model, file system, clock) and returns the new one; a call that
  throws returns \<open>Inl\<close>.
  \<^item> \<open>messages_list\<close>: \<open>users.messages.list\<close>; \<open>None\<close> when the response has no
    \<open>messages\<close> field.
  \<^item> \<open>messages_get\<close>: \<open>users.messages.get\<close> followed by the decoding of headers and
    body in \<open>parseMessage\<close>, which is not modelled; the reference token, the one field
    \<open>parseMessage\<close> computes from the batch position, is set by \<open>getEmail\<close> below.
  \<^item> \<open>mailbox\<close>: the state-changing methods of \<open>GmailClient\<close> (\<open>replyToEmail\<close>,
    \<open>sendEmail\<close>, \<open>archiveEmail\<close>, ...), each taken as one call.
  \<^item> \<open>complete\<close>: \<open>ClaudeClient.complete\<close>.
  \<^item> \<open>JSON_parse\<close>: \<open>JSON.parse\<close>; \<open>None\<close> when it throws, otherwise the parsed value
    with the two properties the parser reads, each of which may be missing.
  \<^item> \<open>loadLatestSummary\<close>: \<open>SummaryHandler.loadLatestSummary\<close>, which catches every
    error and returns \<open>null\<close>.
  \<^item> \<open>toISOString\<close>, \<open>Date_parse\<close>: the library's date formatting and parsing.
  \<^item> \<open>confirmation\<close>: subject and HTML body of the confirmation notification; the
    HTML formatting is not modelled.
\<close>

record 'w env =
  messages_list :: "string \<Rightarrow> nat \<Rightarrow> 'w \<Rightarrow> (thrown + Message list option) \<times> 'w"
  messages_get :: "string \<Rightarrow> 'w \<Rightarrow> (thrown + Email) \<times> 'w"
  message_content :: "string \<Rightarrow> 'w \<Rightarrow> (thrown + string) \<times> 'w"
  mailbox :: "call \<Rightarrow> 'w \<Rightarrow> (thrown + unit) \<times> 'w"
  complete :: "string \<Rightarrow> 'w \<Rightarrow> (thrown + string) \<times> 'w"
  JSON_parse :: "string \<Rightarrow> ParseResponse option"
  loadLatestSummary :: "'w \<Rightarrow> StoredSummary option \<times> 'w"
  toISOString :: "Date \<Rightarrow> string"
  Date_parse :: "string \<Rightarrow> Date option"
  confirmation :: "CommandResult list \<Rightarrow> 'w \<Rightarrow> string \<times> string"

text \<open>The state threaded through the handlers: the outside world and the calls made so far.\<close>

record 'w st =
  ext :: 'w
  trace :: "call list"

definition invoke :: "call \<Rightarrow> ('w \<Rightarrow> 'r \<times> 'w) \<Rightarrow> 'w st \<Rightarrow> 'r \<times> 'w st" where
  "invoke c f s = (case f (ext s) of (r, w') \<Rightarrow> (r, \<lparr> ext = w', trace = trace s @ [c] \<rparr>))"

section \<open>services/gmail/GmailClient.ts\<close>

definition getEmail :: "'w env \<Rightarrow> string \<Rightarrow> nat \<Rightarrow> 'w st \<Rightarrow> (thrown + Email) \<times> 'w st" where
  "getEmail env messageId index s =
     (case invoke (MessagesGet messageId) (messages_get env messageId) s of
        (Inl e, s') \<Rightarrow> (Inl e, s')
      | (Inr m, s') \<Rightarrow> (Inr (m\<lparr>referenceId := generateReferenceId index\<rparr>), s'))"

text \<open>The loop of \<open>listRecentEmails\<close>: \<open>i\<close> is the position in \<open>messages\<close>.\<close>

fun fetchEmails ::
  "'w env \<Rightarrow> Message list \<Rightarrow> nat \<Rightarrow> Email list \<Rightarrow> 'w st \<Rightarrow> (thrown + Email list) \<times> 'w st" where
  "fetchEmails env [] i emails s = (Inr emails, s)"
| "fetchEmails env (msg # messages) i emails s =
     (case msg_id msg of
        None \<Rightarrow> fetchEmails env messages (i + 1) emails s
      | Some mid \<Rightarrow>
          if mid = [] then fetchEmails env messages (i + 1) emails s
          else (case getEmail env mid i s of
                  (Inl e, s') \<Rightarrow> (Inl e, s')
                | (Inr email, s') \<Rightarrow> fetchEmails env messages (i + 1) (emails @ [email]) s'))"

definition listRecentEmails ::
  "Config \<Rightarrow> 'w env \<Rightarrow> nat \<Rightarrow> 'w st \<Rightarrow> (thrown + Email list) \<times> 'w st" where
  "listRecentEmails cfg env hoursBack s =
     (let query = ''newer_than:'' @ number_toString hoursBack @ ''h'' in
      case invoke (MessagesList query (maxEmailsPerRun cfg))
             (messages_list env query (maxEmailsPerRun cfg)) s of
        (Inl e, s') \<Rightarrow> (Inl e, s')
      | (Inr response, s') \<Rightarrow>
          fetchEmails env (case response of None \<Rightarrow> [] | Some ms \<Rightarrow> ms) 0 [] s')"

definition mailbox_call :: "'w env \<Rightarrow> call \<Rightarrow> 'w st \<Rightarrow> (thrown + unit) \<times> 'w st" where
  "mailbox_call env c s = invoke c (mailbox env c) s"

definition getMessageContent :: "'w env \<Rightarrow> string \<Rightarrow> 'w st \<Rightarrow> (thrown + string) \<times> 'w st" where
  "getMessageContent env messageId s =
     invoke (GetMessageContent messageId) (message_content env messageId) s"

text \<open>\<open>String\<close> of an integer, and of \<open>NaN\<close> for the time value of an invalid date.\<close>

definition int_toString :: "int \<Rightarrow> string" where
  "int_toString i = (if i < 0 then ''-'' @ number_toString (nat (- i)) else number_toString (nat i))"

definition searchReplies ::
  "'w env \<Rightarrow> string \<Rightarrow> Date option \<Rightarrow> 'w st \<Rightarrow> (thrown + Message list) \<times> 'w st" where
  \<open>searchReplies env subject' afterDate s =
     (let query = ''in:sent subject:"Re: '' @ subject' @ ''" after:''
                  @ (case afterDate of None \<Rightarrow> ''NaN'' | Some t \<Rightarrow> int_toString (t div 1000)) in
      case invoke (MessagesList query 10) (messages_list env query 10) s of
        (Inl e, s') \<Rightarrow> (Inl e, s')
      | (Inr response, s') \<Rightarrow> (Inr (case response of None \<Rightarrow> [] | Some ms \<Rightarrow> ms), s'))\<close>

section \<open>services/ai/ClaudeClient.ts\<close>

text \<open>
  The match of \<open>/```(?:json)?\s*([\s\S]*?)```/\<close>: \<open>after_fence\<close> is the text behind the
  leftmost fence, \<open>until_fence\<close> the shortest text up to the next fence, and
  \<open>code_block\<close> the first capture group (\<open>None\<close> when the expression does not match).
\<close>

fun after_fence :: "string \<Rightarrow> string option" where
  "after_fence (a # b # c # rest) =
     (if a = CHR 0x60 \<and> b = CHR 0x60 \<and> c = CHR 0x60 then Some rest
      else after_fence (b # c # rest))"
| "after_fence _ = None"

fun until_fence :: "string \<Rightarrow> string option" where
  "until_fence (a # b # c # rest) =
     (if a = CHR 0x60 \<and> b = CHR 0x60 \<and> c = CHR 0x60 then Some []
      else map_option ((#) a) (until_fence (b # c # rest)))"
| "until_fence _ = None"

definition code_block :: "string \<Rightarrow> string option" where
  "code_block response =
     (case after_fence response of
        None \<Rightarrow> None
      | Some r \<Rightarrow>
          until_fence (dropWhile is_white (if take 4 r = ''json'' then drop 4 r else r)))"

definition extract_json :: "string \<Rightarrow> string" where
  "extract_json response =
     (let captured = (case code_block response of None \<Rightarrow> response | Some c \<Rightarrow> c)
      in if trim captured = [] then trim response else trim captured)"

definition parseJson :: "'w env \<Rightarrow> string \<Rightarrow> 'w st \<Rightarrow> (thrown + ParseResponse) \<times> 'w st" where
  "parseJson env prompt s =
     (case invoke (Complete prompt) (complete env prompt) s of
        (Inl e, s') \<Rightarrow> (Inl e, s')
      | (Inr response, s') \<Rightarrow>
          (case JSON_parse env (extract_json response) of
             None \<Rightarrow> (Inl (Error ''Failed to parse JSON from Claude response''), s')
           | Some v \<Rightarrow> (Inr v, s')))"

section \<open>services/ai/CommandParser.ts\<close>

definition SYSTEM_PROMPT :: string where
  \<open>SYSTEM_PROMPT = concat
       [''You are a command parser for an email assistant.\<newline>'',
        ''Your job is to extract structured commands from natural language user input.\<newline>'',
        ''\<newline>'',
        ''Available commands:\<newline>'',
        ''- reply: Reply to an email. Requires target reference and reply content.\<newline>'',
        ''- forward: Forward an email. Requires target reference, recipient email, and optional note.\<newline>'',
        ''- archive: Archive an email. Requires target reference.\<newline>'',
        ''- delete: Delete an email. Requires target reference.\<newline>'',
        ''- mark_read: Mark email as read. Requires target reference.\<newline>'',
        ''- mark_unread: Mark email as unread. Requires target reference.\<newline>'',
        ''- star: Star an email. Requires target reference.\<newline>'',
        ''- unstar: Remove star from email. Requires target reference.\<newline>'',
        ''- label: Add a label to an email. Requires target reference and label name.\<newline>'',
        ''\<newline>'',
        ''Email references use the format EMAIL-XXX (e.g., EMAIL-001, EMAIL-015).\<newline>'',
        ''\<newline>'',
        ''Parse the user's input and extract all valid commands. If something cannot be parsed as a command, add it to the "unrecognized" array.\<newline>'',
        ''\<newline>'',
        ''Always respond with valid JSON.'']\<close>

definition RESPONSE_FORMAT :: string where
  \<open>RESPONSE_FORMAT = concat
       [''\<newline>'',
        ''Respond with JSON in this exact format:\<newline>'',
        ''{\<newline>'',
        ''  "commands": [\<newline>'',
        ''    {\<newline>'',
        ''      "type": "reply",\<newline>'',
        ''      "targetRef": "EMAIL-001",\<newline>'',
        ''      "content": "The reply message content"\<newline>'',
        ''    },\<newline>'',
        ''    {\<newline>'',
        ''      "type": "forward",\<newline>'',
        ''      "targetRef": "EMAIL-002",\<newline>'',
        ''      "forwardTo": "recipient@example.com",\<newline>'',
        ''      "note": "Optional note to include"\<newline>'',
        ''    },\<newline>'',
        ''    {\<newline>'',
        ''      "type": "archive",\<newline>'',
        ''      "targetRef": "EMAIL-003"\<newline>'',
        ''    },\<newline>'',
        ''    {\<newline>'',
        ''      "type": "label",\<newline>'',
        ''      "targetRef": "EMAIL-004",\<newline>'',
        ''      "labelName": "Important"\<newline>'',
        ''    }\<newline>'',
        ''  ],\<newline>'',
        ''  "unrecognized": [\<newline>'',
        ''    "Any text that couldn't be parsed as a command"\<newline>'',
        ''  ]\<newline>'',
        ''}'']\<close>

definition buildParsePrompt :: "string \<Rightarrow> string option \<Rightarrow> string" where
  \<open>buildParsePrompt userInput summaryContext =
     (let prompt = SYSTEM_PROMPT @ ''\<newline>\<newline>User input to parse:\<newline>"""\<newline>''
                   @ userInput @ ''\<newline>"""\<newline>'';
          prompt = (case summaryContext of
                      None \<Rightarrow> prompt
                    | Some ctx \<Rightarrow>
                        if ctx = [] then prompt
                        else prompt @ ''\<newline>Context from the summary email (for reference):\<newline>''
                             @ ctx @ ''\<newline>'')
      in prompt @ RESPONSE_FORMAT)\<close>

definition transformCommand :: "ParsedCommand \<Rightarrow> thrown + Command" where
  "transformCommand p =
     (if p_type p = ''reply'' then
        Inr (ReplyCommand (p_targetRef p) None (js_or (p_content p) []))
      else if p_type p = ''forward'' then
        Inr (ForwardCommand (p_targetRef p) None (js_or (p_forwardTo p) []) (p_note p))
      else if p_type p = ''archive'' then Inr (ArchiveCommand (p_targetRef p) None)
      else if p_type p = ''delete'' then Inr (DeleteCommand (p_targetRef p) None)
      else if p_type p = ''mark_read'' then Inr (MarkReadCommand (p_targetRef p) None)
      else if p_type p = ''mark_unread'' then Inr (MarkUnreadCommand (p_targetRef p) None)
      else if p_type p = ''star'' then Inr (StarCommand (p_targetRef p) None)
      else if p_type p = ''unstar'' then Inr (UnstarCommand (p_targetRef p) None)
      else if p_type p = ''label'' then
        Inr (LabelCommand (p_targetRef p) None (js_or (p_labelName p) []))
      else Inl (Error (''Unknown command type: '' @ p_type p)))"

text \<open>\<open>parsed.map\<close>: the first element whose callback throws ends the whole call.\<close>

fun transformCommands :: "ParsedCommand list \<Rightarrow> thrown + Command list" where
  "transformCommands [] = Inr []"
| "transformCommands (p # parsed) =
     (case transformCommand p of
        Inl e \<Rightarrow> Inl e
      | Inr c \<Rightarrow> (case transformCommands parsed of Inl e \<Rightarrow> Inl e | Inr cs \<Rightarrow> Inr (c # cs)))"

text \<open>
  \<open>parseCommands\<close>. A response without \<open>commands\<close> makes \<open>parsed.map\<close> throw a
  \<open>TypeError\<close>; one without \<open>unrecognized\<close> makes \<open>response.unrecognized.length\<close> in the
  log line throw one (the program always passes a logger). A \<open>TypeError\<close> is an \<open>Error\<close>.
\<close>

definition parseCommands ::
  "'w env \<Rightarrow> string \<Rightarrow> string option \<Rightarrow> 'w st
     \<Rightarrow> (thrown + Command list \<times> string list) \<times> 'w st" where
  "parseCommands env userInput summaryContext s =
     (case parseJson env (buildParsePrompt userInput summaryContext) s of
        (Inl e, s') \<Rightarrow> (Inl e, s')
      | (Inr response, s') \<Rightarrow>
          (case commands response of
             None \<Rightarrow>
               (Inl (Error ''Cannot read properties of undefined (reading 'map')''), s')
           | Some parsed \<Rightarrow>
               (case transformCommands parsed of
                  Inl e \<Rightarrow> (Inl e, s')
                | Inr cmds \<Rightarrow>
                    (case unrecognized response of
                       None \<Rightarrow>
                         (Inl (Error ''Cannot read properties of undefined (reading 'length')''),
                          s')
                     | Some unrecognized' \<Rightarrow> (Inr (cmds, unrecognized'), s')))))"

section \<open>handlers/CommandHandler.ts\<close>

text \<open>\<open>{ ...cmd, targetGmailId: id }\<close>: the same command with the resolved id replaced.\<close>

fun set_targetGmailId :: "string option \<Rightarrow> Command \<Rightarrow> Command" where
  "set_targetGmailId g (ReplyCommand r _ c) = ReplyCommand r g c"
| "set_targetGmailId g (ForwardCommand r _ t n) = ForwardCommand r g t n"
| "set_targetGmailId g (ArchiveCommand r _) = ArchiveCommand r g"
| "set_targetGmailId g (DeleteCommand r _) = DeleteCommand r g"
| "set_targetGmailId g (MarkReadCommand r _) = MarkReadCommand r g"
| "set_targetGmailId g (MarkUnreadCommand r _) = MarkUnreadCommand r g"
| "set_targetGmailId g (StarCommand r _) = StarCommand r g"
| "set_targetGmailId g (UnstarCommand r _) = UnstarCommand r g"
| "set_targetGmailId g (LabelCommand r _ l) = LabelCommand r g l"

definition resolveCommand :: "js_map \<Rightarrow> Command \<Rightarrow> Command" where
  "resolveCommand emailMappings' cmd =
     set_targetGmailId (Map_get emailMappings' (targetRef cmd)) cmd"

text \<open>\<open>content.replace(/\n/g, '<br/>')\<close>\<close>

definition replace_newlines :: "string \<Rightarrow> string" where
  "replace_newlines s = concat (map (\<lambda>c. if c = CHR 0x0A then ''<br/>'' else [c]) s)"

definition forwardBody :: "'w env \<Rightarrow> string option \<Rightarrow> Email \<Rightarrow> string" where
  "forwardBody env note' original =
     ''\<newline>            <p>'' @ js_or note' ''Forwarded message:'' @ ''</p>\<newline>''
     @ ''            <hr/>\<newline>''
     @ ''            <p><strong>From:</strong> '' @ address (email_from original) @ ''<br/>\<newline>''
     @ ''            <strong>Subject:</strong> '' @ subject original @ ''<br/>\<newline>''
     @ ''            <strong>Date:</strong> '' @ toISOString env (date original) @ ''</p>\<newline>''
     @ ''            <div>'' @ js_or (body_html original) (body_plain original) @ ''</div>\<newline>''
     @ ''          ''"

text \<open>The body of the \<open>try\<close> block of \<open>executeCommand\<close>: the \<open>switch\<close> on the command's type.\<close>

fun performCommand :: "'w env \<Rightarrow> Command \<Rightarrow> string \<Rightarrow> 'w st \<Rightarrow> (thrown + unit) \<times> 'w st" where
  "performCommand env (ReplyCommand r g c) gmailId s =
     (case getEmail env gmailId 0 s of
        (Inl e, s') \<Rightarrow> (Inl e, s')
      | (Inr original, s') \<Rightarrow>
          mailbox_call env
            (ReplyToEmail gmailId (threadId original) (address (email_from original))
               (subject original) (''<p>'' @ replace_newlines c @ ''</p>'')) s')"
| "performCommand env (ForwardCommand r g t n) gmailId s =
     (case getEmail env gmailId 0 s of
        (Inl e, s') \<Rightarrow> (Inl e, s')
      | (Inr original, s') \<Rightarrow>
          mailbox_call env
            (SendEmail t (''Fwd: '' @ subject original) (forwardBody env n original) None) s')"
| "performCommand env (ArchiveCommand r g) gmailId s = mailbox_call env (ArchiveEmail gmailId) s"
| "performCommand env (DeleteCommand r g) gmailId s = mailbox_call env (DeleteEmail gmailId) s"
| "performCommand env (MarkReadCommand r g) gmailId s = mailbox_call env (MarkAsRead gmailId) s"
| "performCommand env (MarkUnreadCommand r g) gmailId s = mailbox_call env (MarkAsUnread gmailId) s"
| "performCommand env (StarCommand r g) gmailId s = mailbox_call env (StarEmail gmailId) s"
| "performCommand env (UnstarCommand r g) gmailId s = mailbox_call env (UnstarEmail gmailId) s"
| "performCommand env (LabelCommand r g l) gmailId s = mailbox_call env (AddLabel gmailId l) s"

text \<open>\<open>error instanceof Error ? error.message : 'Unknown error'\<close>\<close>

fun errorMessage :: "thrown \<Rightarrow> string" where
  "errorMessage (Error msg) = msg"
| "errorMessage Thrown_other = ''Unknown error''"

text \<open>\<open>!gmailId\<close> holds for a missing id and for the empty string.\<close>

definition executeCommand :: "Config \<Rightarrow> 'w env \<Rightarrow> Command \<Rightarrow> 'w st \<Rightarrow> CommandResult \<times> 'w st" where
  "executeCommand cfg env cmd s =
     (case targetGmailId cmd of
        None \<Rightarrow>
          (\<lparr> command = cmd, success = False,
              error = Some (''Could not resolve '' @ targetRef cmd @ '' to a Gmail message ID''),
              details = None \<rparr>, s)
      | Some gmailId \<Rightarrow>
          if gmailId = [] then
            (\<lparr> command = cmd, success = False,
                error = Some (''Could not resolve '' @ targetRef cmd @ '' to a Gmail message ID''),
                details = None \<rparr>, s)
          else if dryRun cfg then
            (\<lparr> command = cmd, success = True, error = None,
                details = Some ''Dry run - no action taken'' \<rparr>, s)
          else
            (case performCommand env cmd gmailId s of
               (Inr u, s') \<Rightarrow>
                 (\<lparr> command = cmd, success = True, error = None, details = None \<rparr>, s')
             | (Inl e, s') \<Rightarrow>
                 (\<lparr> command = cmd, success = False, error = Some (errorMessage e),
                     details = None \<rparr>, s')))"

fun executeCommands ::
  "Config \<Rightarrow> 'w env \<Rightarrow> Command list \<Rightarrow> 'w st \<Rightarrow> CommandResult list \<times> 'w st" where
  "executeCommands cfg env [] s = ([], s)"
| "executeCommands cfg env (cmd # cmds) s =
     (case executeCommand cfg env cmd s of
        (result, s') \<Rightarrow>
          (case executeCommands cfg env cmds s' of (results, s'') \<Rightarrow> (result # results, s'')))"

definition sendConfirmationEmail ::
  "Config \<Rightarrow> 'w env \<Rightarrow> CommandResult list \<Rightarrow> 'w st \<Rightarrow> (thrown + unit) \<times> 'w st" where
  "sendConfirmationEmail cfg env results s =
     (case confirmation env results (ext s) of
        (subject', htmlBody) \<Rightarrow> mailbox_call env (SendEmail (user_email cfg) subject' htmlBody None) s)"

text \<open>
  The body of the loop over the replies in \<open>processReplyCommands\<close>: the results to append
  to \<open>allResults\<close> (none where the body ends with \<open>continue\<close>), or the value thrown.
\<close>

definition processReply ::
  "Config \<Rightarrow> 'w env \<Rightarrow> js_map \<Rightarrow> Message \<Rightarrow> 'w st \<Rightarrow> (thrown + CommandResult list) \<times> 'w st" where
  "processReply cfg env emailMappings' reply s =
     (case msg_id reply of
        None \<Rightarrow> (Inr [], s)
      | Some rid \<Rightarrow>
          if rid = [] then (Inr [], s)
          else (case getMessageContent env rid s of
                  (Inl e, s1) \<Rightarrow> (Inl e, s1)
                | (Inr content', s1) \<Rightarrow>
                    if trim content' = [] then (Inr [], s1)
                    else (case parseCommands env content' None s1 of
                            (Inl e, s2) \<Rightarrow> (Inl e, s2)
                          | (Inr (cmds, unrecognized'), s2) \<Rightarrow>
                              (case executeCommands cfg env
                                      (map (resolveCommand emailMappings') cmds) s2 of
                                 (results, s3) \<Rightarrow> (Inr results, s3)))))"

fun processReplies ::
  "Config \<Rightarrow> 'w env \<Rightarrow> js_map \<Rightarrow> Message list \<Rightarrow> CommandResult list \<Rightarrow> 'w st
     \<Rightarrow> (thrown + CommandResult list) \<times> 'w st" where
  "processReplies cfg env emailMappings' [] allResults s = (Inr allResults, s)"
| "processReplies cfg env emailMappings' (reply # replies) allResults s =
     (case processReply cfg env emailMappings' reply s of
        (Inl e, s') \<Rightarrow> (Inl e, s')
      | (Inr results, s') \<Rightarrow>
          processReplies cfg env emailMappings' replies (allResults @ results) s')"

definition processReplyCommands ::
  "Config \<Rightarrow> 'w env \<Rightarrow> 'w st \<Rightarrow> (thrown + CommandResult list) \<times> 'w st" where
  "processReplyCommands cfg env s =
     (case invoke LoadLatestSummary (loadLatestSummary env) s of
        (None, s1) \<Rightarrow> (Inr [], s1)
      | (Some storedSummary, s1) \<Rightarrow>
          (let emailMappings' = loaded_emailMappings (loadStoredSummary storedSummary);
               summaryDate = Date_parse env (stored_generatedAt storedSummary)
           in case searchReplies env ''Daily Email Summary'' summaryDate s1 of
                (Inl e, s2) \<Rightarrow> (Inl e, s2)
              | (Inr replies, s2) \<Rightarrow>
                  if replies = [] then (Inr [], s2)
                  else (case processReplies cfg env emailMappings' replies [] s2 of
                          (Inl e, s3) \<Rightarrow> (Inl e, s3)
                        | (Inr allResults, s3) \<Rightarrow>
                            if allResults \<noteq> [] \<and> \<not> dryRun cfg then
                              (case sendConfirmationEmail cfg env allResults s3 of
                                 (Inl e, s4) \<Rightarrow> (Inl e, s4)
                               | (Inr u, s4) \<Rightarrow> (Inr allResults, s4))
                            else (Inr allResults, s3))))"

section \<open>Notions used in the statements\<close>

text \<open>
  The provider's contract for \<open>maxResults\<close>: a response of \<open>users.messages.list\<close> holds at
  most that many messages. The code relies on it; it does not cut the list itself.
\<close>

definition respects_maxResults :: "'w env \<Rightarrow> bool" where
  "respects_maxResults env =
     (\<forall>q n w ms w'. messages_list env q n w = (Inr (Some ms), w') \<longrightarrow> length ms \<le> n)"

text \<open>How many of the calls made so far satisfy \<open>P\<close>.\<close>

definition count_calls :: "(call \<Rightarrow> bool) \<Rightarrow> 'w st \<Rightarrow> nat" where
  "count_calls P s = length (filter P (trace s))"

section \<open>Example values\<close>

definition summary_demo :: Summary where
  "summary_demo =
     \<lparr> summary_id = ''s1'', generatedAt = 1700000000000, periodStart = Some 1699990000000,
       periodEnd = 1700000000000, totalEmails = 4, unreadCount = 1, executiveSummary = ''x'',
       actionItems = [], informational = [],
       emailMappings = [(''EMAIL-002'', ''b''), (''7'', ''c''), (''EMAIL-001'', ''a''), (''3'', ''d'')] \<rparr>"

definition email_demo :: Email where
  "email_demo =
     \<lparr> email_id = ''b'', threadId = ''t1'', referenceId = ''EMAIL-001'',
       email_from = \<lparr> name = ''Ann'', address = ''ann@example.com'' \<rparr>,
       email_to = [], email_cc = None, subject = ''Fwd: Hello'', snippet = ''Hi'',
       body_plain = ''Hi there'', body_html = None, date = 1699990000000,
       labels = [''INBOX''], attachments = [], isUnread = False \<rparr>"

definition answer_demo :: string where
  \<open>answer_demo = ''Here you are:\<newline>'' @ [CHR 0x60, CHR 0x60, CHR 0x60]
     @ ''json\<newline>{"commands": [{"type": "archive", "targetRef": "EMAIL-001"}], "unrecognized": []}\<newline>''
     @ [CHR 0x60, CHR 0x60, CHR 0x60]\<close>

definition response_demo :: ParseResponse where
  "response_demo =
     \<lparr> commands = Some [\<lparr> p_type = ''archive'', p_targetRef = ''EMAIL-001'',
                           p_content = None, p_forwardTo = None, p_note = None,
                           p_labelName = None \<rparr>],
       unrecognized = Some [] \<rparr>"

definition snooze_answer_demo :: string where
  \<open>snooze_answer_demo =
     ''{"commands": [{"type": "forward", "targetRef": "EMAIL-002", "forwardTo": "john@example.com"}, ''
     @ ''{"type": "snooze", "targetRef": "EMAIL-001"}], "unrecognized": []}''\<close>

definition forward_demo :: ParsedCommand where
  "forward_demo = \<lparr> p_type = ''forward'', p_targetRef = ''EMAIL-002'', p_content = None,
                     p_forwardTo = Some ''john@example.com'', p_note = None, p_labelName = None \<rparr>"

definition snooze_demo :: ParsedCommand where
  "snooze_demo = \<lparr> p_type = ''snooze'', p_targetRef = ''EMAIL-001'', p_content = None,
                    p_forwardTo = None, p_note = None, p_labelName = None \<rparr>"

definition snooze_response_demo :: ParseResponse where
  "snooze_response_demo =
     \<lparr> commands = Some [forward_demo, snooze_demo], unrecognized = Some [] \<rparr>"

text \<open>
  A world for the examples. Its state counts the language model's answers: the first one
  is no JSON, the third one names a command type that does not exist, every other one is
  \<open>answer_demo\<close>. The mailbox lists up to twelve replies
  \<open>r1\<close>, ..., \<open>r12\<close> (never more than \<open>maxResults\<close>) and refuses to trash message \<open>b\<close>.
\<close>

definition env_demo :: "nat env" where
  \<open>env_demo =
     \<lparr> messages_list = (\<lambda>q n w.
         (Inr (Some (take n (map (\<lambda>i. \<lparr> msg_id = Some (''r'' @ number_toString i) \<rparr>) [1..<13]))), w)),
       messages_get = (\<lambda>mid w. (Inr (email_demo\<lparr>email_id := mid\<rparr>), w)),
       message_content = (\<lambda>mid w. (Inr ''Archive EMAIL-001'', w)),
       mailbox = (\<lambda>c w. (if c = DeleteEmail ''b'' then Inl (Error ''Not found'') else Inr (), w)),
       complete = (\<lambda>prompt w.
         (Inr (if w = 0 then ''Sorry, I cannot do that.''
               else if w = 2 then snooze_answer_demo else answer_demo), w + 1)),
       JSON_parse = (\<lambda>s.
         if s = ''{"commands": [{"type": "archive", "targetRef": "EMAIL-001"}], "unrecognized": []}''
         then Some response_demo
         else if s = snooze_answer_demo then Some snooze_response_demo else None),
       loadLatestSummary = (\<lambda>w.
         (Some (summaryToStorable (\<lambda>t. ''2023-11-14T22:13:20.000Z'') summary_demo None (Some ''m1'')), w)),
       toISOString = (\<lambda>t. ''2023-11-14T19:26:40.000Z''),
       Date_parse = (\<lambda>s. Some 1700000000000),
       confirmation = (\<lambda>results w. (''Agent Actions Completed'', ''<html></html>'')) \<rparr>\<close>

text \<open>
  A second world: the language model's third answer is no JSON, every other one is
  \<open>answer_demo\<close>.
\<close>

definition env_demo2 :: "nat env" where
  "env_demo2 =
     env_demo\<lparr> complete := (\<lambda>prompt w.
       (Inr (if w = 2 then ''Sorry, I cannot do that.'' else answer_demo), w + 1)) \<rparr>"

definition result_demo :: CommandResult where
  "result_demo = \<lparr> command = ArchiveCommand ''EMAIL-001'' (Some ''a''), success = True,
                    error = None, details = None \<rparr>"

definition cfg_demo :: Config where
  "cfg_demo = \<lparr> emailLookbackHours = 24, maxEmailsPerRun = 50, enableCommandProcessing = True,
                 dryRun = False, user_email = ''me@example.com'' \<rparr>"

definition s0 :: "nat st" where
  "s0 = \<lparr> ext = 0, trace = [] \<rparr>"

definition cmds_demo :: "Command list" where
  "cmds_demo = [ArchiveCommand ''EMAIL-001'' (Some ''a''),
                DeleteCommand ''EMAIL-002'' (Some ''b''),
                StarCommand ''EMAIL-002'' (Some ''b'')]"

section \<open>Properties\<close>

subsection \<open>Decimal strings\<close>

lemma digit_val_digit_char: "d < 10 \<Longrightarrow> digit_val (digit_char d) = d"
  by (simp add: digit_val_def digit_char_def)

lemma is_digit_digit_char: "d < 10 \<Longrightarrow> is_digit (digit_char d)"
  by (simp add: is_digit_def digit_char_def)

lemma read_decimal_snoc: "read_decimal (s @ [c]) = 10 * read_decimal s + digit_val c"
  by (simp add: read_decimal_def)

lemma read_decimal_number_toString: "read_decimal (number_toString n) = n"
proof (induction n rule: number_toString.induct)
  case (1 n)
  show ?case
  proof (cases "n < 10")
    case True
    then show ?thesis
      by (simp add: number_toString.simps [of n] read_decimal_def digit_val_digit_char)
  next
    case False
    with 1 show ?thesis
      by (simp add: number_toString.simps [of n] read_decimal_snoc digit_val_digit_char)
  qed
qed

lemma digits_number_toString: "list_all is_digit (number_toString n)"
proof (induction n rule: number_toString.induct)
  case (1 n)
  then show ?case
    by (cases "n < 10") (simp_all add: number_toString.simps [of n] is_digit_digit_char)
qed

lemma read_decimal_zeros: "read_decimal (replicate k (CHR ''0'') @ s) = read_decimal s"
  by (induction k) (simp_all add: read_decimal_def digit_val_def)

lemma number_toString_nonempty: "number_toString n \<noteq> []"
  by (subst number_toString.simps) simp

lemma digit_char_neq_zero: "0 < d \<Longrightarrow> d < 10 \<Longrightarrow> digit_char d \<noteq> CHR ''0''"
proof
  assume d: "0 < d" "d < 10" and eq: "digit_char d = CHR ''0''"
  have "digit_val (digit_char d) = d" using d by (simp add: digit_val_digit_char)
  moreover have "digit_val (CHR ''0'') = 0" by (simp add: digit_val_def)
  ultimately show False using d eq by simp
qed

lemma hd_number_toString: "0 < n \<Longrightarrow> hd (number_toString n) \<noteq> CHR ''0''"
proof (induction n rule: number_toString.induct)
  case (1 n)
  show ?case
  proof (cases "n < 10")
    case True
    with 1(2) show ?thesis
      by (simp add: number_toString.simps [of n] digit_char_neq_zero)
  next
    case False
    with 1 show ?thesis
      by (simp add: number_toString.simps [of n] number_toString_nonempty)
  qed
qed

lemma length_number_toString_small: "n < 1000 \<Longrightarrow> length (number_toString n) \<le> 3"
  by (simp add: number_toString.simps [of n] number_toString.simps [of "n div 10"]
      number_toString.simps [of "n div 10 div 10"])

lemma length_number_toString_large: "100 \<le> n \<Longrightarrow> 3 \<le> length (number_toString n)"
proof -
  assume n: "100 \<le> n"
  have a: "\<not> n < 10" and b: "\<not> n div 10 < 10"
    using n by simp_all
  have "Suc 0 \<le> length (number_toString (n div 10 div 10))"
    using number_toString_nonempty [of "n div 10 div 10"]
    by (cases "number_toString (n div 10 div 10)") simp_all
  then show ?thesis
    by (simp add: number_toString.simps [of n] number_toString.simps [of "n div 10"] a b)
qed

subsection \<open>Reference tokens\<close>

text \<open>
  Claim C9. For every 0-based batch position \<open>i\<close> the reference token is the text
  \<open>EMAIL-\<close> followed by the decimal numeral of \<open>i + 1\<close> padded with zeros to three
  digits: the part after the prefix consists of digits only, denotes \<open>i + 1\<close>, has at
  least three characters, exactly three for \<open>i < 999\<close>, and carries no leading zero once
  it is longer than three. (The token is a function of \<open>i\<close> alone, hence deterministic.)
\<close>

theorem generateReferenceId_format:
  "take 6 (generateReferenceId i) = ''EMAIL-''
   \<and> list_all is_digit (drop 6 (generateReferenceId i))
   \<and> read_decimal (drop 6 (generateReferenceId i)) = i + 1
   \<and> 3 \<le> length (drop 6 (generateReferenceId i))
   \<and> (i < 999 \<longrightarrow> length (drop 6 (generateReferenceId i)) = 3)
   \<and> (3 < length (drop 6 (generateReferenceId i))
        \<longrightarrow> hd (drop 6 (generateReferenceId i)) \<noteq> CHR ''0'')"
proof -
  let ?d = "number_toString (i + 1)"
  let ?suf = "padStart 3 (CHR ''0'') ?d"
  have suf: "drop 6 (generateReferenceId i) = ?suf"
    by (simp add: generateReferenceId_def)
  have pre: "take 6 (generateReferenceId i) = ''EMAIL-''"
    by (simp add: generateReferenceId_def)
  have zero: "is_digit (CHR ''0'')" by (simp add: is_digit_def)
  have digs: "list_all is_digit ?suf"
    using digits_number_toString [of "i + 1"] zero
    by (auto simp: padStart_def list_all_iff)
  have val: "read_decimal ?suf = i + 1"
    by (simp add: padStart_def read_decimal_zeros read_decimal_number_toString)
  have len: "3 \<le> length ?suf"
    by (simp add: padStart_def)
  have small: "i < 999 \<longrightarrow> length ?suf = 3"
    using length_number_toString_small [of "i + 1"] by (simp add: padStart_def)
  have large: "3 < length ?suf \<longrightarrow> hd ?suf \<noteq> CHR ''0''"
  proof
    assume "3 < length ?suf"
    then have "3 < length ?d" by (simp add: padStart_def split: if_splits)
    then have "?suf = ?d" by (simp add: padStart_def)
    then show "hd ?suf \<noteq> CHR ''0''"
      using hd_number_toString [of "i + 1"] by simp
  qed
  show ?thesis
    unfolding suf using pre digs val len small large by blast
qed

theorem generateReferenceId_format_witness:
  "generateReferenceId 0 = ''EMAIL-001''
   \<and> (0::nat) < 999 \<and> length (drop 6 (generateReferenceId 0)) = 3
   \<and> 3 < length (drop 6 (generateReferenceId 999))
   \<and> hd (drop 6 (generateReferenceId 999)) \<noteq> CHR ''0''"
proof -
  have a: "generateReferenceId 0 = ''EMAIL-001''" by code_simp
  have b: "3 < length (drop 6 (generateReferenceId 999))" by code_simp
  show ?thesis
    using a b generateReferenceId_format [of 0] generateReferenceId_format [of 999] by simp
qed

subsection \<open>Maps, objects and the stored summary\<close>

lemma set_object_insert: "set (object_insert k v ps) = insert (k, v) (set ps)"
  by (induction k v ps rule: object_insert.induct) auto

lemma distinct_object_insert:
  "distinct (map fst ps) \<Longrightarrow> k \<notin> fst ` set ps \<Longrightarrow> distinct (map fst (object_insert k v ps))"
proof (induction ps)
  case Nil
  then show ?case by simp
next
  case (Cons p ps)
  obtain k' v' where p: "p = (k', v')" by (cases p)
  have "fst ` set (object_insert k v ps) = insert k (fst ` set ps)"
    by (simp add: set_object_insert)
  with Cons p show ?case by auto
qed

lemma CreateDataProperty_fresh:
  "k \<notin> fst ` set obj \<Longrightarrow> CreateDataProperty k v obj = object_insert k v obj"
  by (simp add: CreateDataProperty_def map_of_eq_None_iff)

lemma fold_CreateDataProperty:
  "distinct (map fst es) \<Longrightarrow> distinct (map fst acc) \<Longrightarrow> fst ` set es \<inter> fst ` set acc = {}
   \<Longrightarrow> set (fold (\<lambda>(k, v). CreateDataProperty k v) es acc) = set es \<union> set acc
       \<and> distinct (map fst (fold (\<lambda>(k, v). CreateDataProperty k v) es acc))"
proof (induction es arbitrary: acc)
  case Nil
  then show ?case by simp
next
  case (Cons e es)
  obtain k v where e: "e = (k, v)" by (cases e)
  from Cons.prems e have fresh: "k \<notin> fst ` set acc" by auto
  let ?acc = "object_insert k v acc"
  have step: "CreateDataProperty k v acc = ?acc"
    using fresh by (rule CreateDataProperty_fresh)
  have d: "distinct (map fst ?acc)"
    using Cons.prems(2) fresh by (rule distinct_object_insert)
  have keys: "fst ` set ?acc = insert k (fst ` set acc)"
    by (simp add: set_object_insert)
  have disj: "fst ` set es \<inter> fst ` set ?acc = {}"
    using Cons.prems e keys by auto
  have "distinct (map fst es)" using Cons.prems(1) by simp
  from Cons.IH [OF this d disj] show ?case
    by (simp add: e step set_object_insert)
qed

lemma Object_fromEntries_distinct:
  "distinct (map fst m) \<Longrightarrow>
     set (Object_fromEntries m) = set m \<and> distinct (map fst (Object_fromEntries m))"
  using fold_CreateDataProperty [of m "[]"] by (simp add: Object_fromEntries_def)

lemma update_fresh: "k \<notin> fst ` set acc \<Longrightarrow> AList.update k v acc = acc @ [(k, v)]"
  by (induction acc) auto

lemma fold_Map_set:
  "distinct (map fst (acc @ es)) \<Longrightarrow> fold (\<lambda>(k, v). Map_set k v) es acc = acc @ es"
proof (induction es arbitrary: acc)
  case Nil
  then show ?case by simp
next
  case (Cons e es)
  obtain k v where e: "e = (k, v)" by (cases e)
  from Cons.prems e have fresh: "k \<notin> fst ` set acc" by auto
  have d: "distinct (map fst ((acc @ [(k, v)]) @ es))" using Cons.prems e by simp
  show ?case
    using Cons.IH [OF d] by (simp add: e Map_set_def update_fresh [OF fresh])
qed

lemma new_Map_distinct: "distinct (map fst es) \<Longrightarrow> new_Map es = es"
  using fold_Map_set [of "[]" es] by (simp add: new_Map_def)

lemma summaryToStorable_fields:
  "stored_emailMappings (summaryToStorable fmt summary t m) = Object_fromEntries (emailMappings summary)"
  "stored_threadId (summaryToStorable fmt summary t m) = t"
  "stored_messageId (summaryToStorable fmt summary t m) = m"
  by (cases t; cases m; simp add: summaryToStorable_def)+

lemma loadStoredSummary_fields:
  "loaded_emailMappings (loadStoredSummary stored) = new_Map (Object_entries (stored_emailMappings stored))"
  "loaded_threadId (loadStoredSummary stored) = stored_threadId stored"
  "loaded_messageId (loadStoredSummary stored) = stored_messageId stored"
  by (cases "stored_threadId stored"; cases "stored_messageId stored";
      simp add: loadStoredSummary_def)+

text \<open>
  Claim C8. For every Summary (its \<open>Map\<close> has pairwise distinct keys), converting it to
  a StoredSummary and loading that back gives a mapping with the same set of key/value
  pairs, again with distinct keys and hence the same value for every key; the optional
  \<open>threadId\<close> and \<open>messageId\<close> come back exactly as they were passed: absent when
  absent, the same value when supplied.
\<close>

theorem storedSummary_roundtrip:
  assumes "distinct (map fst (emailMappings summary))"
  shows "set (loaded_emailMappings (loadStoredSummary (summaryToStorable fmt summary t m)))
           = set (emailMappings summary)
         \<and> distinct (map fst (loaded_emailMappings
               (loadStoredSummary (summaryToStorable fmt summary t m))))
         \<and> (\<forall>k. Map_get (loaded_emailMappings
               (loadStoredSummary (summaryToStorable fmt summary t m))) k
               = Map_get (emailMappings summary) k)
         \<and> loaded_threadId (loadStoredSummary (summaryToStorable fmt summary t m)) = t
         \<and> loaded_messageId (loadStoredSummary (summaryToStorable fmt summary t m)) = m"
proof -
  let ?loaded = "loadStoredSummary (summaryToStorable fmt summary t m)"
  have fe: "set (Object_fromEntries (emailMappings summary)) = set (emailMappings summary)"
    and fd: "distinct (map fst (Object_fromEntries (emailMappings summary)))"
    using Object_fromEntries_distinct [OF assms] by simp_all
  have lm: "loaded_emailMappings ?loaded = Object_fromEntries (emailMappings summary)"
    by (simp add: loadStoredSummary_fields summaryToStorable_fields Object_entries_def
        new_Map_distinct [OF fd])
  have lt: "loaded_threadId ?loaded = t" and lmsg: "loaded_messageId ?loaded = m"
    by (simp_all add: loadStoredSummary_fields summaryToStorable_fields)
  have get: "\<forall>k. Map_get (loaded_emailMappings ?loaded) k = Map_get (emailMappings summary) k"
    unfolding lm Map_get_def using fe fd assms by (metis map_of_inject_set)
  show ?thesis using lm fe fd lt lmsg get by simp
qed

theorem storedSummary_roundtrip_witness:
  "distinct (map fst (emailMappings summary_demo))
   \<and> set (loaded_emailMappings
           (loadStoredSummary (summaryToStorable (\<lambda>t. ''2023-11-14'') summary_demo None (Some ''m1''))))
       = set (emailMappings summary_demo)
   \<and> loaded_emailMappings
         (loadStoredSummary (summaryToStorable (\<lambda>t. ''2023-11-14'') summary_demo None (Some ''m1'')))
       = [(''3'', ''d''), (''7'', ''c''), (''EMAIL-002'', ''b''), (''EMAIL-001'', ''a'')]
   \<and> loaded_threadId
         (loadStoredSummary (summaryToStorable (\<lambda>t. ''2023-11-14'') summary_demo None (Some ''m1'')))
       = None
   \<and> loaded_messageId
         (loadStoredSummary (summaryToStorable (\<lambda>t. ''2023-11-14'') summary_demo None (Some ''m1'')))
       = Some ''m1''"
proof -
  have d: "distinct (map fst (emailMappings summary_demo))"
    by (simp add: summary_demo_def)
  have order: "loaded_emailMappings
         (loadStoredSummary (summaryToStorable (\<lambda>t. ''2023-11-14'') summary_demo None (Some ''m1'')))
       = [(''3'', ''d''), (''7'', ''c''), (''EMAIL-002'', ''b''), (''EMAIL-001'', ''a'')]"
    by code_simp
  show ?thesis
    using d order
      storedSummary_roundtrip [OF d, of "\<lambda>t. ''2023-11-14''" None "Some ''m1''"]
    by simp
qed

subsection \<open>Executing commands\<close>

lemma targetGmailId_set [simp]: "targetGmailId (set_targetGmailId g cmd) = g"
  by (cases cmd) simp_all

lemma targetRef_set [simp]: "targetRef (set_targetGmailId g cmd) = targetRef cmd"
  by (cases cmd) simp_all

text \<open>
  Claim C6. A command whose reference token is absent from the loaded mapping gets no
  provider id at resolution, and executing it returns a Command Result with
  \<open>success = false\<close> whose error message contains the token; the result is an ordinary
  value (nothing is thrown), no call is made and the state is unchanged. This holds in
  dry-run mode and outside it.
\<close>

theorem unresolved_reference_fails:
  "Map_get m (targetRef cmd) = None \<Longrightarrow>
     executeCommand cfg env (resolveCommand m cmd) s =
       (\<lparr> command = resolveCommand m cmd, success = False,
           error = Some (''Could not resolve '' @ targetRef cmd @ '' to a Gmail message ID''),
           details = None \<rparr>, s)"
  by (simp add: executeCommand_def resolveCommand_def)

theorem unresolved_reference_fails_witness:
  "Map_get (emailMappings summary_demo) (targetRef (ArchiveCommand ''EMAIL-009'' None)) = None
   \<and> executeCommand cfg_demo env_demo
        (resolveCommand (emailMappings summary_demo) (ArchiveCommand ''EMAIL-009'' None)) s0 =
       (\<lparr> command = ArchiveCommand ''EMAIL-009'' None, success = False,
           error = Some ''Could not resolve EMAIL-009 to a Gmail message ID'',
           details = None \<rparr>, s0)"
proof -
  have h: "Map_get (emailMappings summary_demo) (targetRef (ArchiveCommand ''EMAIL-009'' None)) = None"
    by (simp add: Map_get_def summary_demo_def)
  have r: "resolveCommand (emailMappings summary_demo) (ArchiveCommand ''EMAIL-009'' None)
             = ArchiveCommand ''EMAIL-009'' None"
    using h by (simp add: resolveCommand_def)
  show ?thesis
    using h unresolved_reference_fails [OF h, of cfg_demo env_demo s0] by (simp add: r)
qed

text \<open>
  Claim C3, as stated, fails: the test for a missing provider id comes before the test for
  dry-run mode, so in dry-run mode a command that was not resolved gives
  \<open>success = false\<close>.
\<close>

theorem dryRun_unresolved_counterexample:
  "\<not> success (fst (executeCommand (cfg_demo\<lparr>dryRun := True\<rparr>) env_demo
                      (resolveCommand (emailMappings summary_demo)
                         (ArchiveCommand ''EMAIL-009'' None)) s0))"
  by (simp add: executeCommand_def resolveCommand_def Map_get_def summary_demo_def)

lemma executeCommand_dryRun_state: "dryRun cfg \<Longrightarrow> snd (executeCommand cfg env cmd s) = s"
  by (simp add: executeCommand_def split: option.splits)

lemma executeCommands_dryRun_state: "dryRun cfg \<Longrightarrow> snd (executeCommands cfg env cmds s) = s"
proof (induction cmds)
  case Nil
  then show ?case by simp
next
  case (Cons cmd cmds)
  have "snd (executeCommand cfg env cmd s) = s"
    using Cons.prems by (rule executeCommand_dryRun_state)
  with Cons show ?case
    by (simp add: split_beta)
qed

text \<open>
  Claim C3, amended. In dry-run mode, executing a command of any kind whose provider id
  was resolved (present and not empty) gives \<open>success = true\<close> with the detail string
  \<open>Dry run - no action taken\<close>; a command without a provider id gives \<open>success = false\<close>
  with the could-not-resolve message. In both cases, and for a whole batch, the state is
  left as it was: no call is made, in particular none that changes the mailbox.
\<close>

theorem dryRun_executeCommand:
  assumes "dryRun cfg"
  shows "(targetGmailId cmd = Some g \<and> g \<noteq> [] \<longrightarrow>
            executeCommand cfg env cmd s =
              (\<lparr> command = cmd, success = True, error = None,
                  details = Some ''Dry run - no action taken'' \<rparr>, s))
         \<and> (targetGmailId cmd = None \<or> targetGmailId cmd = Some [] \<longrightarrow>
            executeCommand cfg env cmd s =
              (\<lparr> command = cmd, success = False,
                  error = Some (''Could not resolve '' @ targetRef cmd @ '' to a Gmail message ID''),
                  details = None \<rparr>, s))
         \<and> snd (executeCommands cfg env cmds s) = s
         \<and> filter state_changing (trace (snd (executeCommands cfg env cmds s)))
             = filter state_changing (trace s)"
  using assms executeCommands_dryRun_state [of cfg env cmds s]
  by (auto simp: executeCommand_def)

theorem dryRun_executeCommand_witness:
  "dryRun (cfg_demo\<lparr>dryRun := True\<rparr>)
   \<and> targetGmailId (DeleteCommand ''EMAIL-002'' (Some ''b'')) = Some ''b'' \<and> ''b'' \<noteq> []
   \<and> executeCommand (cfg_demo\<lparr>dryRun := True\<rparr>) env_demo
         (DeleteCommand ''EMAIL-002'' (Some ''b'')) s0 =
       (\<lparr> command = DeleteCommand ''EMAIL-002'' (Some ''b''), success = True, error = None,
           details = Some ''Dry run - no action taken'' \<rparr>, s0)
   \<and> targetGmailId (ArchiveCommand ''EMAIL-009'' None) = None
   \<and> executeCommand (cfg_demo\<lparr>dryRun := True\<rparr>) env_demo (ArchiveCommand ''EMAIL-009'' None) s0 =
       (\<lparr> command = ArchiveCommand ''EMAIL-009'' None, success = False,
           error = Some ''Could not resolve EMAIL-009 to a Gmail message ID'',
           details = None \<rparr>, s0)
   \<and> snd (executeCommands (cfg_demo\<lparr>dryRun := True\<rparr>) env_demo
            [DeleteCommand ''EMAIL-002'' (Some ''b''), ArchiveCommand ''EMAIL-009'' None] s0) = s0
   \<and> filter state_changing (trace (snd (executeCommands (cfg_demo\<lparr>dryRun := True\<rparr>) env_demo
            [DeleteCommand ''EMAIL-002'' (Some ''b''), ArchiveCommand ''EMAIL-009'' None] s0))) = []"
proof -
  have d: "dryRun (cfg_demo\<lparr>dryRun := True\<rparr>)" by simp
  show ?thesis
    using d
      dryRun_executeCommand [OF d, of "DeleteCommand ''EMAIL-002'' (Some ''b'')" "''b''" env_demo s0
        "[DeleteCommand ''EMAIL-002'' (Some ''b''), ArchiveCommand ''EMAIL-009'' None]"]
      dryRun_executeCommand [OF d, of "ArchiveCommand ''EMAIL-009'' None" "''b''" env_demo s0 "[]"]
    by (simp add: s0_def)
qed

lemma command_executeCommand: "command (fst (executeCommand cfg env cmd s)) = cmd"
  by (simp add: executeCommand_def split: option.splits prod.splits sum.splits)

lemma length_executeCommands: "length (fst (executeCommands cfg env cmds s)) = length cmds"
  by (induction cmds arbitrary: s) (simp_all add: split_beta)

lemma commands_executeCommands: "map command (fst (executeCommands cfg env cmds s)) = cmds"
  by (induction cmds arbitrary: s) (simp_all add: split_beta command_executeCommand)

lemma nth_executeCommands:
  "j < length cmds \<Longrightarrow>
     fst (executeCommands cfg env cmds s) ! j =
       fst (executeCommand cfg env (cmds ! j) (snd (executeCommands cfg env (take j cmds) s)))"
proof (induction cmds arbitrary: j s)
  case Nil
  then show ?case by simp
next
  case (Cons cmd cmds)
  show ?case
  proof (cases j)
    case 0
    then show ?thesis by (simp add: split_beta)
  next
    case (Suc i)
    with Cons.prems have "i < length cmds" by simp
    from Cons.IH [OF this, of "snd (executeCommand cfg env cmd s)"] Suc
    show ?thesis by (simp add: split_beta)
  qed
qed

lemma executeCommand_throws:
  "\<not> dryRun cfg \<Longrightarrow> targetGmailId cmd = Some gid \<Longrightarrow> gid \<noteq> [] \<Longrightarrow>
     performCommand env cmd gid s = (Inl e, s') \<Longrightarrow>
     executeCommand cfg env cmd s =
       (\<lparr> command = cmd, success = False, error = Some (errorMessage e), details = None \<rparr>, s')"
  by (simp add: executeCommand_def)

text \<open>
  Claim C5. A batch of K commands yields exactly K Command Results, the j-th one for the
  j-th command; each is the outcome of executing that command alone in the state the
  earlier commands left. When the mailbox operation of command j throws an \<open>Error\<close>,
  result j has \<open>success = false\<close> and carries that error's message.
\<close>

theorem executeCommands_independent:
  "length (fst (executeCommands cfg env cmds s)) = length cmds
   \<and> map command (fst (executeCommands cfg env cmds s)) = cmds
   \<and> (\<forall>j<length cmds.
         fst (executeCommands cfg env cmds s) ! j =
           fst (executeCommand cfg env (cmds ! j) (snd (executeCommands cfg env (take j cmds) s))))
   \<and> (\<forall>j<length cmds. \<forall>gid msg s'.
         \<not> dryRun cfg \<and> targetGmailId (cmds ! j) = Some gid \<and> gid \<noteq> []
         \<and> performCommand env (cmds ! j) gid (snd (executeCommands cfg env (take j cmds) s))
             = (Inl (Error msg), s')
         \<longrightarrow> fst (executeCommands cfg env cmds s) ! j =
               \<lparr> command = cmds ! j, success = False, error = Some msg, details = None \<rparr>)"
proof -
  have nth: "\<forall>j<length cmds.
         fst (executeCommands cfg env cmds s) ! j =
           fst (executeCommand cfg env (cmds ! j) (snd (executeCommands cfg env (take j cmds) s)))"
    by (simp add: nth_executeCommands)
  have thr: "\<forall>j<length cmds. \<forall>gid msg s'.
         \<not> dryRun cfg \<and> targetGmailId (cmds ! j) = Some gid \<and> gid \<noteq> []
         \<and> performCommand env (cmds ! j) gid (snd (executeCommands cfg env (take j cmds) s))
             = (Inl (Error msg), s')
         \<longrightarrow> fst (executeCommands cfg env cmds s) ! j =
               \<lparr> command = cmds ! j, success = False, error = Some msg, details = None \<rparr>"
  proof (intro allI impI)
    fix j gid msg s'
    assume j: "j < length cmds"
      and h: "\<not> dryRun cfg \<and> targetGmailId (cmds ! j) = Some gid \<and> gid \<noteq> []
         \<and> performCommand env (cmds ! j) gid (snd (executeCommands cfg env (take j cmds) s))
             = (Inl (Error msg), s')"
    from h have a: "\<not> dryRun cfg" and b: "targetGmailId (cmds ! j) = Some gid"
      and c: "gid \<noteq> []"
      and d: "performCommand env (cmds ! j) gid (snd (executeCommands cfg env (take j cmds) s))
             = (Inl (Error msg), s')"
      by simp_all
    have "executeCommand cfg env (cmds ! j) (snd (executeCommands cfg env (take j cmds) s))
        = (\<lparr> command = cmds ! j, success = False, error = Some (errorMessage (Error msg)),
              details = None \<rparr>, s')"
      by (rule executeCommand_throws [OF a b c d])
    then show "fst (executeCommands cfg env cmds s) ! j =
               \<lparr> command = cmds ! j, success = False, error = Some msg, details = None \<rparr>"
      using nth_executeCommands [OF j, of cfg env s] by simp
  qed
  show ?thesis
    using length_executeCommands [of cfg env cmds s] commands_executeCommands [of cfg env cmds s]
      nth thr by blast
qed

theorem executeCommands_independent_witness:
  "(1::nat) < length cmds_demo
   \<and> \<not> dryRun cfg_demo \<and> targetGmailId (cmds_demo ! 1) = Some ''b'' \<and> ''b'' \<noteq> []
   \<and> performCommand env_demo (cmds_demo ! 1) ''b''
         (snd (executeCommands cfg_demo env_demo (take 1 cmds_demo) s0))
       = (Inl (Error ''Not found''), \<lparr> ext = 0, trace = [ArchiveEmail ''a'', DeleteEmail ''b''] \<rparr>)
   \<and> fst (executeCommands cfg_demo env_demo cmds_demo s0) ! 1 =
       \<lparr> command = cmds_demo ! 1, success = False, error = Some ''Not found'', details = None \<rparr>
   \<and> fst (executeCommands cfg_demo env_demo cmds_demo s0) =
       [\<lparr> command = ArchiveCommand ''EMAIL-001'' (Some ''a''), success = True, error = None,
           details = None \<rparr>,
        \<lparr> command = DeleteCommand ''EMAIL-002'' (Some ''b''), success = False,
           error = Some ''Not found'', details = None \<rparr>,
        \<lparr> command = StarCommand ''EMAIL-002'' (Some ''b''), success = True, error = None,
           details = None \<rparr>]"
proof -
  have len: "(1::nat) < length cmds_demo" by (simp add: cmds_demo_def)
  have pre: "\<not> dryRun cfg_demo \<and> targetGmailId (cmds_demo ! 1) = Some ''b'' \<and> ''b'' \<noteq> []"
    by (simp add: cmds_demo_def cfg_demo_def)
  have thr: "performCommand env_demo (cmds_demo ! 1) ''b''
         (snd (executeCommands cfg_demo env_demo (take 1 cmds_demo) s0))
       = (Inl (Error ''Not found''), \<lparr> ext = 0, trace = [ArchiveEmail ''a'', DeleteEmail ''b''] \<rparr>)"
    by (simp add: cmds_demo_def cfg_demo_def env_demo_def s0_def executeCommand_def
        mailbox_call_def invoke_def)
  have all: "fst (executeCommands cfg_demo env_demo cmds_demo s0) =
       [\<lparr> command = ArchiveCommand ''EMAIL-001'' (Some ''a''), success = True, error = None,
           details = None \<rparr>,
        \<lparr> command = DeleteCommand ''EMAIL-002'' (Some ''b''), success = False,
           error = Some ''Not found'', details = None \<rparr>,
        \<lparr> command = StarCommand ''EMAIL-002'' (Some ''b''), success = True, error = None,
           details = None \<rparr>]"
    by (simp add: cmds_demo_def cfg_demo_def env_demo_def s0_def executeCommand_def
        mailbox_call_def invoke_def)
  have "fst (executeCommands cfg_demo env_demo cmds_demo s0) ! 1 =
       \<lparr> command = cmds_demo ! 1, success = False, error = Some ''Not found'', details = None \<rparr>"
    using executeCommands_independent [of cfg_demo env_demo cmds_demo s0] len pre thr by blast
  then show ?thesis using len pre thr all by blast
qed

text \<open>
  Claim C2. The code prefixes the subject unconditionally: forwarding a message whose
  subject is \<open>Fwd: Hello\<close> sends the subject \<open>Fwd: Fwd: Hello\<close>.
\<close>

theorem forward_subject_evaluated:
  "trace (snd (executeCommand cfg_demo env_demo
                 (ForwardCommand ''EMAIL-002'' (Some ''b'') ''john@example.com'' None) s0))
     = [MessagesGet ''b'',
        SendEmail ''john@example.com'' ''Fwd: Fwd: Hello''
          (forwardBody env_demo None (email_demo\<lparr>referenceId := ''EMAIL-001''\<rparr>)) None]"
proof -
  have r: "generateReferenceId 0 = ''EMAIL-001''" by code_simp
  show ?thesis
    by (simp add: executeCommand_def cfg_demo_def env_demo_def s0_def getEmail_def
        mailbox_call_def invoke_def email_demo_def r)
qed

lemma forward_subject_always_prefixed:
  "performCommand env (ForwardCommand r g t n) gmailId s = (res, s') \<Longrightarrow>
   getEmail env gmailId 0 s = (Inr original, s1) \<Longrightarrow>
   trace s' = trace s1 @ [SendEmail t (''Fwd: '' @ subject original) (forwardBody env n original) None]"
  by (auto simp: mailbox_call_def invoke_def split: prod.splits)

subsection \<open>The command interpreter\<close>

lemma js_or_empty: "js_or x [] = (case x of None \<Rightarrow> [] | Some v \<Rightarrow> v)"
  by (simp add: js_or_def split: option.splits)

lemma transformCommand_known:
  "p_type p \<in> set CommandType \<Longrightarrow>
     \<exists>c. transformCommand p = Inr c \<and> command_type c = p_type p
         \<and> targetRef c = p_targetRef p \<and> targetGmailId c = None
         \<and> (p_type p = ''reply'' \<longrightarrow>
               content c = (case p_content p of None \<Rightarrow> [] | Some v \<Rightarrow> v))
         \<and> (p_type p = ''forward'' \<longrightarrow>
               forwardTo c = (case p_forwardTo p of None \<Rightarrow> [] | Some v \<Rightarrow> v)
               \<and> cmd_note c = p_note p)
         \<and> (p_type p = ''label'' \<longrightarrow>
               labelName c = (case p_labelName p of None \<Rightarrow> [] | Some v \<Rightarrow> v))"
  by (auto simp: CommandType_def transformCommand_def js_or_empty)

lemma transformCommand_unknown:
  "p_type p \<notin> set CommandType \<Longrightarrow>
     transformCommand p = Inl (Error (''Unknown command type: '' @ p_type p))"
  by (simp add: CommandType_def transformCommand_def)

lemma transformCommands_all_known:
  "list_all (\<lambda>p. p_type p \<in> set CommandType) parsed \<Longrightarrow>
     \<exists>cs. transformCommands parsed = Inr cs \<and> map transformCommand parsed = map Inr cs"
proof (induction parsed)
  case Nil
  then show ?case by simp
next
  case (Cons p parsed)
  then obtain cs where cs: "transformCommands parsed = Inr cs"
    "map transformCommand parsed = map Inr cs"
    by auto
  from Cons.prems obtain c where "transformCommand p = Inr c"
    using transformCommand_known [of p] by auto
  with cs show ?case by simp
qed

lemma transformCommands_first_unknown:
  "list_all (\<lambda>p. p_type p \<in> set CommandType) pre \<Longrightarrow> p_type q \<notin> set CommandType \<Longrightarrow>
     transformCommands (pre @ q # post) = Inl (Error (''Unknown command type: '' @ p_type q))"
proof (induction pre)
  case Nil
  then show ?case by (simp add: transformCommand_unknown)
next
  case (Cons a pre)
  then obtain c where "transformCommand a = Inr c"
    using transformCommand_known [of a] by auto
  with Cons show ?case by simp
qed

lemma parseCommands_first_unknown:
  assumes "parseJson env (buildParsePrompt userInput ctx) s = (Inr response, s')"
    and "commands response = Some (pre @ q # post)"
    and "list_all (\<lambda>p. p_type p \<in> set CommandType) pre" and "p_type q \<notin> set CommandType"
  shows "parseCommands env userInput ctx s
           = (Inl (Error (''Unknown command type: '' @ p_type q)), s')"
  using assms(1,2) transformCommands_first_unknown [OF assms(3,4), of post]
  by (simp add: parseCommands_def)

lemma parseCommands_all_known:
  assumes "parseJson env (buildParsePrompt userInput ctx) s = (Inr response, s')"
    and "commands response = Some parsed" and "unrecognized response = Some un"
    and "list_all (\<lambda>p. p_type p \<in> set CommandType) parsed"
  shows "\<exists>cs. parseCommands env userInput ctx s = (Inr (cs, un), s')
              \<and> map transformCommand parsed = map Inr cs"
proof -
  from transformCommands_all_known [OF assms(4)] obtain cs where
    cs: "transformCommands parsed = Inr cs" "map transformCommand parsed = map Inr cs"
    by blast
  with assms(1-3) have "parseCommands env userInput ctx s = (Inr (cs, un), s')"
    by (simp add: parseCommands_def)
  with cs(2) show ?thesis by blast
qed

lemma parseCommands_missing_commands:
  "parseJson env (buildParsePrompt userInput ctx) s = (Inr response, s') \<Longrightarrow>
   commands response = None \<Longrightarrow>
     parseCommands env userInput ctx s
       = (Inl (Error ''Cannot read properties of undefined (reading 'map')''), s')"
  by (simp add: parseCommands_def)

text \<open>
  Claim C4, as stated, fails for \<open>note\<close>: a forward command without a note keeps the
  note absent; it is not replaced by the empty string.
\<close>

theorem transformCommands_note_counterexample:
  "transformCommands [forward_demo] =
     Inr [ForwardCommand ''EMAIL-002'' None ''john@example.com'' None]"
  by (simp add: forward_demo_def transformCommand_def js_or_def)

text \<open>
  Claim C4, amended. For a parsed command whose type is one of the nine known kinds the
  transformation never fails; it keeps the reference token, leaves the provider id unset
  and replaces a missing \<open>content\<close> (reply), \<open>forwardTo\<close> (forward) or \<open>labelName\<close> (label)
  by the empty string, while \<open>note\<close> is passed on as it is, absent when it was absent. A
  list of such commands is transformed element by element: the result lists, in order,
  the transformed command of every element. An unrecognized type throws
  \<open>Unknown command type: <type>\<close>; in a list, the first element with such a type ends
  the transformation of the whole list with its error and makes \<open>parseCommands\<close> throw
  that error for the reply, while an answer whose commands all have known types is
  parsed into the list of their transformed commands.
\<close>

theorem transformCommands_defaults:
  "(p_type p \<in> set CommandType \<longrightarrow>
      (\<exists>c. transformCommand p = Inr c \<and> command_type c = p_type p
         \<and> targetRef c = p_targetRef p \<and> targetGmailId c = None
         \<and> (p_type p = ''reply'' \<longrightarrow>
               content c = (case p_content p of None \<Rightarrow> [] | Some v \<Rightarrow> v))
         \<and> (p_type p = ''forward'' \<longrightarrow>
               forwardTo c = (case p_forwardTo p of None \<Rightarrow> [] | Some v \<Rightarrow> v)
               \<and> cmd_note c = p_note p)
         \<and> (p_type p = ''label'' \<longrightarrow>
               labelName c = (case p_labelName p of None \<Rightarrow> [] | Some v \<Rightarrow> v))))
   \<and> (list_all (\<lambda>p. p_type p \<in> set CommandType) parsed \<longrightarrow>
        (\<exists>cs. transformCommands parsed = Inr cs
           \<and> map transformCommand parsed = map Inr cs))
   \<and> (p_type p \<notin> set CommandType \<longrightarrow>
        transformCommand p = Inl (Error (''Unknown command type: '' @ p_type p)))
   \<and> (list_all (\<lambda>p. p_type p \<in> set CommandType) pre \<and> p_type q \<notin> set CommandType \<longrightarrow>
        transformCommands (pre @ q # post)
          = Inl (Error (''Unknown command type: '' @ p_type q)))
   \<and> (parseJson env (buildParsePrompt userInput ctx) s = (Inr response, s')
        \<and> commands response = Some (pre @ q # post)
        \<and> list_all (\<lambda>p. p_type p \<in> set CommandType) pre \<and> p_type q \<notin> set CommandType \<longrightarrow>
        parseCommands env userInput ctx s
          = (Inl (Error (''Unknown command type: '' @ p_type q)), s'))
   \<and> (parseJson env (buildParsePrompt userInput ctx) s = (Inr response, s')
        \<and> commands response = Some parsed \<and> unrecognized response = Some un
        \<and> list_all (\<lambda>p. p_type p \<in> set CommandType) parsed \<longrightarrow>
        (\<exists>cs. parseCommands env userInput ctx s = (Inr (cs, un), s')
           \<and> map transformCommand parsed = map Inr cs))"
  using transformCommand_known [of p] transformCommands_all_known [of parsed]
    transformCommand_unknown [of p] transformCommands_first_unknown [of pre q post]
    parseCommands_first_unknown [of env userInput ctx s response s' pre q post]
    parseCommands_all_known [of env userInput ctx s response s' parsed un]
  by blast

lemma extract_snooze: "extract_json snooze_answer_demo = snooze_answer_demo"
  by code_simp

lemma env_demo_snooze:
  "parseJson env_demo (buildParsePrompt ''Snooze EMAIL-001'' None) (s0\<lparr>ext := 2\<rparr>)
     = (Inr snooze_response_demo,
        \<lparr> ext = 3, trace = [Complete (buildParsePrompt ''Snooze EMAIL-001'' None)] \<rparr>)"
proof -
  have jp: "JSON_parse env_demo snooze_answer_demo = Some snooze_response_demo"
    by (simp add: env_demo_def snooze_answer_demo_def)
  have cm: "complete env_demo (buildParsePrompt ''Snooze EMAIL-001'' None) 2
              = (Inr snooze_answer_demo, 3)"
    by (simp add: env_demo_def)
  show ?thesis
    by (simp add: parseJson_def invoke_def s0_def cm extract_snooze jp)
qed

theorem transformCommands_defaults_witness:
  "p_type forward_demo \<in> set CommandType \<and> p_type forward_demo = ''forward''
   \<and> transformCommand forward_demo
       = Inr (ForwardCommand ''EMAIL-002'' None ''john@example.com'' None)
   \<and> p_type (forward_demo\<lparr>p_type := ''reply''\<rparr>) = ''reply''
   \<and> transformCommand (forward_demo\<lparr>p_type := ''reply''\<rparr>)
       = Inr (ReplyCommand ''EMAIL-002'' None [])
   \<and> p_type (forward_demo\<lparr>p_type := ''label''\<rparr>) = ''label''
   \<and> transformCommand (forward_demo\<lparr>p_type := ''label''\<rparr>)
       = Inr (LabelCommand ''EMAIL-002'' None [])
   \<and> list_all (\<lambda>p. p_type p \<in> set CommandType)
        [forward_demo\<lparr>p_type := ''reply'', p_content := Some ''hi''\<rparr>,
         forward_demo\<lparr>p_type := ''reply''\<rparr>]
   \<and> transformCommands [forward_demo\<lparr>p_type := ''reply'', p_content := Some ''hi''\<rparr>,
                         forward_demo\<lparr>p_type := ''reply''\<rparr>]
       = Inr [ReplyCommand ''EMAIL-002'' None ''hi'', ReplyCommand ''EMAIL-002'' None []]
   \<and> list_all (\<lambda>p. p_type p \<in> set CommandType) [forward_demo]
   \<and> p_type snooze_demo \<notin> set CommandType
   \<and> transformCommand snooze_demo = Inl (Error ''Unknown command type: snooze'')
   \<and> transformCommands ([forward_demo] @ snooze_demo # [forward_demo])
       = Inl (Error ''Unknown command type: snooze'')
   \<and> parseJson env_demo (buildParsePrompt ''Snooze EMAIL-001'' None) (s0\<lparr>ext := 2\<rparr>)
       = (Inr snooze_response_demo,
          \<lparr> ext = 3, trace = [Complete (buildParsePrompt ''Snooze EMAIL-001'' None)] \<rparr>)
   \<and> commands snooze_response_demo = Some ([forward_demo] @ snooze_demo # [])
   \<and> parseCommands env_demo ''Snooze EMAIL-001'' None (s0\<lparr>ext := 2\<rparr>)
       = (Inl (Error ''Unknown command type: snooze''),
          \<lparr> ext = 3, trace = [Complete (buildParsePrompt ''Snooze EMAIL-001'' None)] \<rparr>)
   \<and> parseJson env_demo (buildParsePrompt ''Archive EMAIL-001'' None) (s0\<lparr>ext := 1\<rparr>)
       = (Inr response_demo,
          \<lparr> ext = 2, trace = [Complete (buildParsePrompt ''Archive EMAIL-001'' None)] \<rparr>)
   \<and> commands response_demo = Some (the (commands response_demo))
   \<and> unrecognized response_demo = Some []
   \<and> list_all (\<lambda>p. p_type p \<in> set CommandType) (the (commands response_demo))
   \<and> parseCommands env_demo ''Archive EMAIL-001'' None (s0\<lparr>ext := 1\<rparr>)
       = (Inr ([ArchiveCommand ''EMAIL-001'' None], []),
          \<lparr> ext = 2, trace = [Complete (buildParsePrompt ''Archive EMAIL-001'' None)] \<rparr>)"
proof -
  let ?two = "[forward_demo\<lparr>p_type := ''reply'', p_content := Some ''hi''\<rparr>,
               forward_demo\<lparr>p_type := ''reply''\<rparr>]"
  let ?s3 = "\<lparr> ext = 3, trace = [Complete (buildParsePrompt ''Snooze EMAIL-001'' None)] \<rparr> :: nat st"
  have known: "p_type forward_demo \<in> set CommandType \<and> p_type forward_demo = ''forward''"
    by (simp add: forward_demo_def CommandType_def)
  have known2: "list_all (\<lambda>p. p_type p \<in> set CommandType) ?two"
    by (simp add: CommandType_def)
  have known1: "list_all (\<lambda>p. p_type p \<in> set CommandType) [forward_demo]"
    by (simp add: forward_demo_def CommandType_def)
  have unknown: "p_type snooze_demo \<notin> set CommandType"
    by (simp add: snooze_demo_def CommandType_def)
  have name: "p_type snooze_demo = ''snooze''"
    by (simp add: snooze_demo_def)
  have cs: "commands snooze_response_demo = Some ([forward_demo] @ snooze_demo # [])"
    by (simp add: snooze_response_demo_def)
  have ev: "transformCommand forward_demo
              = Inr (ForwardCommand ''EMAIL-002'' None ''john@example.com'' None)
            \<and> transformCommand (forward_demo\<lparr>p_type := ''reply''\<rparr>)
              = Inr (ReplyCommand ''EMAIL-002'' None [])
            \<and> transformCommand (forward_demo\<lparr>p_type := ''label''\<rparr>)
              = Inr (LabelCommand ''EMAIL-002'' None [])
            \<and> transformCommand (forward_demo\<lparr>p_type := ''reply'', p_content := Some ''hi''\<rparr>)
              = Inr (ReplyCommand ''EMAIL-002'' None ''hi'')"
    by (simp add: forward_demo_def transformCommand_def js_or_def)
  from transformCommands_defaults [where p = forward_demo and parsed = ?two
      and pre = "[forward_demo]" and q = snooze_demo and post = "[]"
      and env = env_demo and userInput = "''Snooze EMAIL-001''"
      and ctx = None and s = "s0\<lparr>ext := 2\<rparr>" and response = snooze_response_demo
      and s' = ?s3]
    known2 ev
  have two: "transformCommands ?two
       = Inr [ReplyCommand ''EMAIL-002'' None ''hi'', ReplyCommand ''EMAIL-002'' None []]"
    by auto
  from transformCommands_defaults [where p = snooze_demo and parsed = "[]"
      and pre = "[forward_demo]" and q = snooze_demo and post = "[forward_demo]"
      and env = env_demo and userInput = "''Snooze EMAIL-001''"
      and ctx = None and s = "s0\<lparr>ext := 2\<rparr>" and response = snooze_response_demo
      and s' = ?s3]
    known1 unknown name
  have one: "transformCommand snooze_demo = Inl (Error ''Unknown command type: snooze'')"
    and mixed: "transformCommands ([forward_demo] @ snooze_demo # [forward_demo])
       = Inl (Error ''Unknown command type: snooze'')"
    by simp_all
  from transformCommands_defaults [where p = snooze_demo and parsed = "[]"
      and pre = "[forward_demo]" and q = snooze_demo and post = "[]"
      and env = env_demo and userInput = "''Snooze EMAIL-001''"
      and ctx = None and s = "s0\<lparr>ext := 2\<rparr>" and response = snooze_response_demo
      and s' = ?s3]
    known1 unknown name cs env_demo_snooze
  have pc: "parseCommands env_demo ''Snooze EMAIL-001'' None (s0\<lparr>ext := 2\<rparr>)
       = (Inl (Error ''Unknown command type: snooze''), ?s3)"
    by simp
  let ?s2 = "\<lparr> ext = 2, trace = [Complete (buildParsePrompt ''Archive EMAIL-001'' None)] \<rparr> :: nat st"
  have pj: "parseJson env_demo (buildParsePrompt ''Archive EMAIL-001'' None) (s0\<lparr>ext := 1\<rparr>)
       = (Inr response_demo, ?s2)"
  proof -
    have ea: \<open>extract_json answer_demo =
        ''{"commands": [{"type": "archive", "targetRef": "EMAIL-001"}], "unrecognized": []}''\<close>
      by code_simp
    have jp: "JSON_parse env_demo (extract_json answer_demo) = Some response_demo"
      by (simp add: env_demo_def ea)
    have cm: "complete env_demo (buildParsePrompt ''Archive EMAIL-001'' None) (Suc 0)
                = (Inr answer_demo, 2)"
      by (simp add: env_demo_def)
    show ?thesis
      by (simp add: parseJson_def invoke_def s0_def cm jp)
  qed
  have shape: "commands response_demo = Some (the (commands response_demo))
      \<and> unrecognized response_demo = Some []
      \<and> list_all (\<lambda>p. p_type p \<in> set CommandType) (the (commands response_demo))"
    by (simp add: response_demo_def CommandType_def)
  have tr: "map transformCommand (the (commands response_demo))
              = map Inr [ArchiveCommand ''EMAIL-001'' None]"
    by (simp add: response_demo_def transformCommand_def)
  from transformCommands_defaults [where p = snooze_demo
      and parsed = "the (commands response_demo)" and un = "[]"
      and pre = "[forward_demo]" and q = snooze_demo and post = "[]"
      and env = env_demo and userInput = "''Archive EMAIL-001''"
      and ctx = None and s = "s0\<lparr>ext := 1\<rparr>" and response = response_demo
      and s' = ?s2]
    pj shape
  obtain cs' where "parseCommands env_demo ''Archive EMAIL-001'' None (s0\<lparr>ext := 1\<rparr>)
       = (Inr (cs', []), ?s2)" "map transformCommand (the (commands response_demo)) = map Inr cs'"
    by blast
  with tr have ok: "parseCommands env_demo ''Archive EMAIL-001'' None (s0\<lparr>ext := 1\<rparr>)
       = (Inr ([ArchiveCommand ''EMAIL-001'' None], []), ?s2)"
    by (auto simp: map_eq_Cons_conv)
  show ?thesis
    using known known1 known2 unknown cs ev two one mixed pc env_demo_snooze pj shape ok
    by simp
qed

subsection \<open>The pass over the replies\<close>

lemma processReplies_append:
  "processReplies cfg env m (xs @ ys) acc s =
     (case processReplies cfg env m xs acc s of
        (Inl e, s') \<Rightarrow> (Inl e, s')
      | (Inr acc', s') \<Rightarrow> processReplies cfg env m ys acc' s')"
  by (induction xs arbitrary: acc s) (simp_all split: prod.splits sum.splits)

lemma parseJson_fails:
  "complete env prompt (ext s) = (Inr answer, w') \<Longrightarrow> JSON_parse env (extract_json answer) = None
   \<Longrightarrow> parseJson env prompt s =
         (Inl (Error ''Failed to parse JSON from Claude response''),
          \<lparr> ext = w', trace = trace s @ [Complete prompt] \<rparr>)"
  by (simp add: parseJson_def invoke_def)

lemma processReply_parse_failure:
  assumes "msg_id reply = Some rid" "rid \<noteq> []"
    and "message_content env rid (ext s) = (Inr content', w2)" "trim content' \<noteq> []"
    and "complete env (buildParsePrompt content' None) w2 = (Inr answer, w3)"
    and "JSON_parse env (extract_json answer) = None"
  shows "processReply cfg env m reply s =
           (Inl (Error ''Failed to parse JSON from Claude response''),
            \<lparr> ext = w3,
              trace = trace s @ [GetMessageContent rid, Complete (buildParsePrompt content' None)] \<rparr>)"
proof -
  let ?s1 = "\<lparr> ext = w2, trace = trace s @ [GetMessageContent rid] \<rparr>"
  have c: "getMessageContent env rid s = (Inr content', ?s1)"
    using assms(3) by (simp add: getMessageContent_def invoke_def)
  have p: "parseJson env (buildParsePrompt content' None) ?s1 =
         (Inl (Error ''Failed to parse JSON from Claude response''),
          \<lparr> ext = w3, trace = trace ?s1 @ [Complete (buildParsePrompt content' None)] \<rparr>)"
    using assms(5,6) by (intro parseJson_fails) simp_all
  show ?thesis
    using assms(1,2,4) by (simp add: processReply_def c parseCommands_def p)
qed

lemma processReplies_parse_failure:
  assumes "processReplies cfg env m pre acc s = (Inr acc1, s1)"
    and "msg_id reply = Some rid" "rid \<noteq> []"
    and "message_content env rid (ext s1) = (Inr content', w2)" "trim content' \<noteq> []"
    and "complete env (buildParsePrompt content' None) w2 = (Inr answer, w3)"
    and "JSON_parse env (extract_json answer) = None"
  shows "processReplies cfg env m (pre @ reply # post) acc s =
          (Inl (Error ''Failed to parse JSON from Claude response''),
           \<lparr> ext = w3,
             trace = trace s1 @ [GetMessageContent rid, Complete (buildParsePrompt content' None)] \<rparr>)"
  using assms(1) processReply_parse_failure [OF assms(2-7), of cfg m]
  by (simp add: processReplies_append)

lemma processReplyCommands_parse_failure:
  assumes load: "loadLatestSummary env (ext s) = (Some stored, w1)"
    and search: "searchReplies env ''Daily Email Summary''
                   (Date_parse env (stored_generatedAt stored))
                   \<lparr> ext = w1, trace = trace s @ [LoadLatestSummary] \<rparr>
                 = (Inr (pre @ reply # post), s2)"
    and pre: "processReplies cfg env (loaded_emailMappings (loadStoredSummary stored)) pre [] s2
                = (Inr acc1, s3)"
    and reply: "msg_id reply = Some rid" "rid \<noteq> []"
      "message_content env rid (ext s3) = (Inr content', w4)" "trim content' \<noteq> []"
      "complete env (buildParsePrompt content' None) w4 = (Inr answer, w5)"
      "JSON_parse env (extract_json answer) = None"
  shows "processReplyCommands cfg env s =
          (Inl (Error ''Failed to parse JSON from Claude response''),
           \<lparr> ext = w5,
             trace = trace s3 @ [GetMessageContent rid, Complete (buildParsePrompt content' None)] \<rparr>)"
  using load search processReplies_parse_failure [OF pre reply, of post]
  by (simp add: processReplyCommands_def invoke_def)

text \<open>
  Claim C1, amended. The replies are processed one after the other, in discovery order,
  and the results of a reply that is processed without a throw are appended to those of
  the replies before it. A failure of the JSON extraction while parsing reply i is not
  caught: the loop over the replies, and with it the whole command-intake pass
  \<open>processReplyCommands\<close>, ends with the error
  \<open>Failed to parse JSON from Claude response\<close>; the pass returns no Command Results, and
  the last calls made are the two for reply i, so no reply after i is read, parsed or
  executed and no confirmation is sent (the commands of the replies before i have been
  executed by then).
\<close>

theorem parse_failure_aborts_pass:
  "(processReplies cfg env m pre acc s = (Inr acca, sa)
      \<and> processReply cfg env m reply sa = (Inr results, sb)
    \<longrightarrow> processReplies cfg env m (pre @ [reply]) acc s = (Inr (acca @ results), sb))
   \<and> (processReplies cfg env m pre acc s = (Inr acca, sa)
      \<and> msg_id reply = Some rid \<and> rid \<noteq> []
      \<and> message_content env rid (ext sa) = (Inr content', wa) \<and> trim content' \<noteq> []
      \<and> complete env (buildParsePrompt content' None) wa = (Inr answer, wb)
      \<and> JSON_parse env (extract_json answer) = None
    \<longrightarrow> processReplies cfg env m (pre @ reply # post) acc s =
          (Inl (Error ''Failed to parse JSON from Claude response''),
           \<lparr> ext = wb,
             trace = trace sa @ [GetMessageContent rid, Complete (buildParsePrompt content' None)] \<rparr>))
   \<and> (loadLatestSummary env (ext s) = (Some stored, va)
      \<and> searchReplies env ''Daily Email Summary'' (Date_parse env (stored_generatedAt stored))
           \<lparr> ext = va, trace = trace s @ [LoadLatestSummary] \<rparr>
         = (Inr (pre @ reply # post), ta)
      \<and> processReplies cfg env (loaded_emailMappings (loadStoredSummary stored)) pre [] ta
         = (Inr acca, tb)
      \<and> msg_id reply = Some rid \<and> rid \<noteq> []
      \<and> message_content env rid (ext tb) = (Inr content', wa) \<and> trim content' \<noteq> []
      \<and> complete env (buildParsePrompt content' None) wa = (Inr answer, wb)
      \<and> JSON_parse env (extract_json answer) = None
    \<longrightarrow> processReplyCommands cfg env s =
          (Inl (Error ''Failed to parse JSON from Claude response''),
           \<lparr> ext = wb,
             trace = trace tb @ [GetMessageContent rid, Complete (buildParsePrompt content' None)] \<rparr>))"
proof (intro conjI impI)
  assume "processReplies cfg env m pre acc s = (Inr acca, sa)
      \<and> processReply cfg env m reply sa = (Inr results, sb)"
  then show "processReplies cfg env m (pre @ [reply]) acc s = (Inr (acca @ results), sb)"
    by (simp add: processReplies_append)
next
  assume h: "processReplies cfg env m pre acc s = (Inr acca, sa)
      \<and> msg_id reply = Some rid \<and> rid \<noteq> []
      \<and> message_content env rid (ext sa) = (Inr content', wa) \<and> trim content' \<noteq> []
      \<and> complete env (buildParsePrompt content' None) wa = (Inr answer, wb)
      \<and> JSON_parse env (extract_json answer) = None"
  then have p: "processReplies cfg env m pre acc s = (Inr acca, sa)"
    and a: "msg_id reply = Some rid" and b: "rid \<noteq> []"
    and c: "message_content env rid (ext sa) = (Inr content', wa)" and d: "trim content' \<noteq> []"
    and e: "complete env (buildParsePrompt content' None) wa = (Inr answer, wb)"
    and f: "JSON_parse env (extract_json answer) = None"
    by simp_all
  show "processReplies cfg env m (pre @ reply # post) acc s =
          (Inl (Error ''Failed to parse JSON from Claude response''),
           \<lparr> ext = wb,
             trace = trace sa @ [GetMessageContent rid, Complete (buildParsePrompt content' None)] \<rparr>)"
    by (rule processReplies_parse_failure [OF p a b c d e f])
next
  assume h: "loadLatestSummary env (ext s) = (Some stored, va)
      \<and> searchReplies env ''Daily Email Summary'' (Date_parse env (stored_generatedAt stored))
           \<lparr> ext = va, trace = trace s @ [LoadLatestSummary] \<rparr>
         = (Inr (pre @ reply # post), ta)
      \<and> processReplies cfg env (loaded_emailMappings (loadStoredSummary stored)) pre [] ta
         = (Inr acca, tb)
      \<and> msg_id reply = Some rid \<and> rid \<noteq> []
      \<and> message_content env rid (ext tb) = (Inr content', wa) \<and> trim content' \<noteq> []
      \<and> complete env (buildParsePrompt content' None) wa = (Inr answer, wb)
      \<and> JSON_parse env (extract_json answer) = None"
  then have l: "loadLatestSummary env (ext s) = (Some stored, va)"
    and sr: "searchReplies env ''Daily Email Summary'' (Date_parse env (stored_generatedAt stored))
           \<lparr> ext = va, trace = trace s @ [LoadLatestSummary] \<rparr>
         = (Inr (pre @ reply # post), ta)"
    and p: "processReplies cfg env (loaded_emailMappings (loadStoredSummary stored)) pre [] ta
         = (Inr acca, tb)"
    and a: "msg_id reply = Some rid" and b: "rid \<noteq> []"
    and c: "message_content env rid (ext tb) = (Inr content', wa)" and d: "trim content' \<noteq> []"
    and e: "complete env (buildParsePrompt content' None) wa = (Inr answer, wb)"
    and f: "JSON_parse env (extract_json answer) = None"
    by simp_all
  show "processReplyCommands cfg env s =
          (Inl (Error ''Failed to parse JSON from Claude response''),
           \<lparr> ext = wb,
             trace = trace tb @ [GetMessageContent rid, Complete (buildParsePrompt content' None)] \<rparr>)"
    by (rule processReplyCommands_parse_failure [OF l sr p a b c d e f])
qed

lemma replies_demo: "take 10 (map (\<lambda>i. \<lparr> msg_id = Some (''r'' @ number_toString i) \<rparr>) [1..<13])
  = map (\<lambda>r. \<lparr> msg_id = Some r \<rparr>) [''r1'', ''r2'', ''r3'', ''r4'', ''r5'', ''r6'', ''r7'', ''r8'', ''r9'', ''r10'']"
  by code_simp

lemma after_demo: "int_toString 1700000000 = ''1700000000''"
proof -
  have d: "digit_char 0 = CHR ''0''" "digit_char (Suc 0) = CHR ''1''" "digit_char 7 = CHR ''7''"
    by code_simp+
  show ?thesis
    by (simp add: int_toString_def number_toString.simps d)
qed

lemma extract_sorry: "extract_json ''Sorry, I cannot do that.'' = ''Sorry, I cannot do that.''"
  by code_simp

lemma extract_answer:
  \<open>extract_json answer_demo =
     ''{"commands": [{"type": "archive", "targetRef": "EMAIL-001"}], "unrecognized": []}''\<close>
  by code_simp

lemma trim_demo: "trim ''Archive EMAIL-001'' = ''Archive EMAIL-001''"
  by code_simp


lemma env_demo_load:
  "loadLatestSummary env_demo 0 =
     (Some (summaryToStorable (\<lambda>t. ''2023-11-14T22:13:20.000Z'') summary_demo None (Some ''m1'')), 0)"
  by (simp add: env_demo_def)

lemma env_demo_Date_parse: "Date_parse env_demo x = Some 1700000000000"
  by (simp add: env_demo_def)

lemma env_demo_replies:
  "messages_list env_demo q 10 w =
     (Inr (Some (map (\<lambda>r. \<lparr> msg_id = Some r \<rparr>)
        [''r1'', ''r2'', ''r3'', ''r4'', ''r5'', ''r6'', ''r7'', ''r8'', ''r9'', ''r10''])), w)"
  using replies_demo by (simp add: env_demo_def)

lemma env_demo_content: "message_content env_demo rid w = (Inr ''Archive EMAIL-001'', w)"
  by (simp add: env_demo_def)

lemma env_demo_complete_0: "complete env_demo p 0 = (Inr ''Sorry, I cannot do that.'', Suc 0)"
  by (simp add: env_demo_def)

lemma env_demo_complete_1: "complete env_demo p (Suc 0) = (Inr answer_demo, 2)"
  by (simp add: env_demo_def)

lemma env_demo_JSON_sorry: "JSON_parse env_demo (extract_json ''Sorry, I cannot do that.'') = None"
  by (simp add: env_demo_def snooze_answer_demo_def extract_sorry)

lemma env_demo_JSON_answer: "JSON_parse env_demo (extract_json answer_demo) = Some response_demo"
  by (simp add: env_demo_def extract_answer)

lemma env_demo_archive: "mailbox env_demo (ArchiveEmail ''a'') w = (Inr (), w)"
  by (simp add: env_demo_def)

lemma processReply_demo:
  "processReply cfg_demo env_demo (emailMappings summary_demo) \<lparr> msg_id = Some ''r2'' \<rparr>
         \<lparr> ext = Suc 0, trace = [] \<rparr> =
       (Inr [\<lparr> command = ArchiveCommand ''EMAIL-001'' (Some ''a''), success = True,
               error = None, details = None \<rparr>],
        \<lparr> ext = 2,
          trace = [GetMessageContent ''r2'',
                   Complete (buildParsePrompt ''Archive EMAIL-001'' None),
                   ArchiveEmail ''a''] \<rparr>)"
proof -
  have m: "Map_get (emailMappings summary_demo) ''EMAIL-001'' = Some ''a''"
    by (simp add: Map_get_def summary_demo_def)
  show ?thesis
    by (simp add: processReply_def invoke_def getMessageContent_def env_demo_content trim_demo
        parseCommands_def parseJson_def env_demo_complete_1 env_demo_JSON_answer
        response_demo_def transformCommand_def resolveCommand_def m executeCommand_def
        cfg_demo_def mailbox_call_def env_demo_archive)
qed

text \<open>
  Claim C1, as stated, fails. In the example world the mailbox holds ten replies and the
  language model's answer for the first one is no JSON: the pass throws, returns no
  result for any reply, and stops after the model's call for the first reply, although
  the second reply, processed alone, gives the result of its command.
\<close>

theorem parse_failure_counterexample:
  \<open>processReplyCommands cfg_demo env_demo s0 =
     (Inl (Error ''Failed to parse JSON from Claude response''),
      \<lparr> ext = 1,
        trace = [LoadLatestSummary,
                 MessagesList ''in:sent subject:"Re: Daily Email Summary" after:1700000000'' 10,
                 GetMessageContent ''r1'',
                 Complete (buildParsePrompt ''Archive EMAIL-001'' None)] \<rparr>)
   \<and> processReply cfg_demo env_demo (emailMappings summary_demo) \<lparr> msg_id = Some ''r2'' \<rparr>
         \<lparr> ext = 1, trace = [] \<rparr> =
       (Inr [\<lparr> command = ArchiveCommand ''EMAIL-001'' (Some ''a''), success = True,
               error = None, details = None \<rparr>],
        \<lparr> ext = 2,
          trace = [GetMessageContent ''r2'',
                   Complete (buildParsePrompt ''Archive EMAIL-001'' None),
                   ArchiveEmail ''a''] \<rparr>)\<close>
proof -
  have first: \<open>processReplyCommands cfg_demo env_demo s0 =
     (Inl (Error ''Failed to parse JSON from Claude response''),
      \<lparr> ext = 1,
        trace = [LoadLatestSummary,
                 MessagesList ''in:sent subject:"Re: Daily Email Summary" after:1700000000'' 10,
                 GetMessageContent ''r1'',
                 Complete (buildParsePrompt ''Archive EMAIL-001'' None)] \<rparr>)\<close>
    by (simp add: processReplyCommands_def invoke_def s0_def env_demo_load env_demo_Date_parse
        searchReplies_def after_demo env_demo_replies processReply_def getMessageContent_def
        env_demo_content trim_demo parseCommands_def parseJson_def env_demo_complete_0
        env_demo_JSON_sorry)
  show ?thesis using first processReply_demo by simp
qed

lemma loaded_demo:
  "loaded_emailMappings (loadStoredSummary
       (summaryToStorable (\<lambda>t. ''2023-11-14T22:13:20.000Z'') summary_demo None (Some ''m1'')))
     = [(''3'', ''d''), (''7'', ''c''), (''EMAIL-002'', ''b''), (''EMAIL-001'', ''a'')]"
  by code_simp

lemma env_demo2_fields:
  "loadLatestSummary env_demo2 0 =
     (Some (summaryToStorable (\<lambda>t. ''2023-11-14T22:13:20.000Z'') summary_demo None (Some ''m1'')), 0)"
  "Date_parse env_demo2 x = Some 1700000000000"
  "messages_list env_demo2 q 10 w =
     (Inr (Some (map (\<lambda>r. \<lparr> msg_id = Some r \<rparr>)
        [''r1'', ''r2'', ''r3'', ''r4'', ''r5'', ''r6'', ''r7'', ''r8'', ''r9'', ''r10''])), w)"
  "message_content env_demo2 rid w = (Inr ''Archive EMAIL-001'', w)"
  "mailbox env_demo2 (ArchiveEmail ''a'') w = (Inr (), w)"
  "JSON_parse env_demo2 (extract_json answer_demo) = Some response_demo"
  "JSON_parse env_demo2 (extract_json ''Sorry, I cannot do that.'') = None"
  "complete env_demo2 p 2 = (Inr ''Sorry, I cannot do that.'', 3)"
  using env_demo_load env_demo_Date_parse [of x] env_demo_replies [of q w]
    env_demo_content [of rid w] env_demo_archive [of w] env_demo_JSON_answer env_demo_JSON_sorry
  by (simp_all add: env_demo2_def)

lemma env_demo2_complete: "w \<noteq> 2 \<Longrightarrow> complete env_demo2 p w = (Inr answer_demo, Suc w)"
  by (simp add: env_demo2_def)

lemma processReply_demo2:
  assumes "w \<noteq> 2" "rid \<noteq> []"
  shows "processReply cfg_demo env_demo2
           (loaded_emailMappings (loadStoredSummary
              (summaryToStorable (\<lambda>t. ''2023-11-14T22:13:20.000Z'') summary_demo None
                 (Some ''m1''))))
           \<lparr> msg_id = Some rid \<rparr> \<lparr> ext = w, trace = t \<rparr> =
         (Inr [result_demo],
          \<lparr> ext = Suc w,
            trace = t @ [GetMessageContent rid,
                         Complete (buildParsePrompt ''Archive EMAIL-001'' None),
                         ArchiveEmail ''a''] \<rparr>)"
  using assms
  by (simp add: processReply_def invoke_def getMessageContent_def env_demo2_fields trim_demo
      parseCommands_def parseJson_def env_demo2_complete response_demo_def
      transformCommand_def resolveCommand_def loaded_demo Map_get_def executeCommand_def
      cfg_demo_def mailbox_call_def result_demo_def)

theorem parse_failure_aborts_pass_witness:
  \<open>loadLatestSummary env_demo2 (ext s0) =
     (Some (summaryToStorable (\<lambda>t. ''2023-11-14T22:13:20.000Z'') summary_demo None (Some ''m1'')), 0)
   \<and> searchReplies env_demo2 ''Daily Email Summary''
        (Date_parse env_demo2 (stored_generatedAt
           (summaryToStorable (\<lambda>t. ''2023-11-14T22:13:20.000Z'') summary_demo None (Some ''m1''))))
        \<lparr> ext = 0, trace = trace s0 @ [LoadLatestSummary] \<rparr>
      = (Inr ([\<lparr> msg_id = Some ''r1'' \<rparr>, \<lparr> msg_id = Some ''r2'' \<rparr>] @ \<lparr> msg_id = Some ''r3'' \<rparr>
              # map (\<lambda>r. \<lparr> msg_id = Some r \<rparr>) [''r4'', ''r5'', ''r6'', ''r7'', ''r8'', ''r9'', ''r10'']),
         \<lparr> ext = 0,
           trace = [LoadLatestSummary,
                    MessagesList ''in:sent subject:"Re: Daily Email Summary" after:1700000000'' 10] \<rparr>)
   \<and> processReplies cfg_demo env_demo2
        (loaded_emailMappings (loadStoredSummary
           (summaryToStorable (\<lambda>t. ''2023-11-14T22:13:20.000Z'') summary_demo None (Some ''m1''))))
        [\<lparr> msg_id = Some ''r1'' \<rparr>] []
        \<lparr> ext = 0,
          trace = [LoadLatestSummary,
                   MessagesList ''in:sent subject:"Re: Daily Email Summary" after:1700000000'' 10] \<rparr>
      = (Inr [result_demo],
         \<lparr> ext = 1,
           trace = [LoadLatestSummary,
                    MessagesList ''in:sent subject:"Re: Daily Email Summary" after:1700000000'' 10,
                    GetMessageContent ''r1'',
                    Complete (buildParsePrompt ''Archive EMAIL-001'' None), ArchiveEmail ''a''] \<rparr>)
   \<and> processReply cfg_demo env_demo2
        (loaded_emailMappings (loadStoredSummary
           (summaryToStorable (\<lambda>t. ''2023-11-14T22:13:20.000Z'') summary_demo None (Some ''m1''))))
        \<lparr> msg_id = Some ''r2'' \<rparr>
        \<lparr> ext = 1,
          trace = [LoadLatestSummary,
                   MessagesList ''in:sent subject:"Re: Daily Email Summary" after:1700000000'' 10,
                   GetMessageContent ''r1'',
                   Complete (buildParsePrompt ''Archive EMAIL-001'' None), ArchiveEmail ''a''] \<rparr>
      = (Inr [result_demo],
         \<lparr> ext = 2,
           trace = [LoadLatestSummary,
                    MessagesList ''in:sent subject:"Re: Daily Email Summary" after:1700000000'' 10,
                    GetMessageContent ''r1'',
                    Complete (buildParsePrompt ''Archive EMAIL-001'' None), ArchiveEmail ''a'',
                    GetMessageContent ''r2'',
                    Complete (buildParsePrompt ''Archive EMAIL-001'' None), ArchiveEmail ''a''] \<rparr>)
   \<and> processReplies cfg_demo env_demo2
        (loaded_emailMappings (loadStoredSummary
           (summaryToStorable (\<lambda>t. ''2023-11-14T22:13:20.000Z'') summary_demo None (Some ''m1''))))
        ([\<lparr> msg_id = Some ''r1'' \<rparr>] @ [\<lparr> msg_id = Some ''r2'' \<rparr>]) []
        \<lparr> ext = 0,
          trace = [LoadLatestSummary,
                   MessagesList ''in:sent subject:"Re: Daily Email Summary" after:1700000000'' 10] \<rparr>
      = (Inr ([result_demo] @ [result_demo]),
         \<lparr> ext = 2,
           trace = [LoadLatestSummary,
                    MessagesList ''in:sent subject:"Re: Daily Email Summary" after:1700000000'' 10,
                    GetMessageContent ''r1'',
                    Complete (buildParsePrompt ''Archive EMAIL-001'' None), ArchiveEmail ''a'',
                    GetMessageContent ''r2'',
                    Complete (buildParsePrompt ''Archive EMAIL-001'' None), ArchiveEmail ''a''] \<rparr>)
   \<and> msg_id \<lparr> msg_id = Some ''r3'' \<rparr> = Some ''r3'' \<and> ''r3'' \<noteq> []
   \<and> message_content env_demo2 ''r3'' 2 = (Inr ''Archive EMAIL-001'', 2)
   \<and> trim ''Archive EMAIL-001'' \<noteq> []
   \<and> complete env_demo2 (buildParsePrompt ''Archive EMAIL-001'' None) 2
       = (Inr ''Sorry, I cannot do that.'', 3)
   \<and> JSON_parse env_demo2 (extract_json ''Sorry, I cannot do that.'') = None
   \<and> processReplies cfg_demo env_demo2
        (loaded_emailMappings (loadStoredSummary
           (summaryToStorable (\<lambda>t. ''2023-11-14T22:13:20.000Z'') summary_demo None (Some ''m1''))))
        ([\<lparr> msg_id = Some ''r1'' \<rparr>, \<lparr> msg_id = Some ''r2'' \<rparr>] @ \<lparr> msg_id = Some ''r3'' \<rparr>
           # map (\<lambda>r. \<lparr> msg_id = Some r \<rparr>) [''r4'', ''r5'', ''r6'', ''r7'', ''r8'', ''r9'', ''r10''])
        []
        \<lparr> ext = 0,
          trace = [LoadLatestSummary,
                   MessagesList ''in:sent subject:"Re: Daily Email Summary" after:1700000000'' 10] \<rparr>
      = (Inl (Error ''Failed to parse JSON from Claude response''),
         \<lparr> ext = 3,
           trace = [LoadLatestSummary,
                    MessagesList ''in:sent subject:"Re: Daily Email Summary" after:1700000000'' 10,
                    GetMessageContent ''r1'',
                    Complete (buildParsePrompt ''Archive EMAIL-001'' None), ArchiveEmail ''a'',
                    GetMessageContent ''r2'',
                    Complete (buildParsePrompt ''Archive EMAIL-001'' None), ArchiveEmail ''a'',
                    GetMessageContent ''r3'',
                    Complete (buildParsePrompt ''Archive EMAIL-001'' None)] \<rparr>)
   \<and> processReplyCommands cfg_demo env_demo2 s0
      = (Inl (Error ''Failed to parse JSON from Claude response''),
         \<lparr> ext = 3,
           trace = [LoadLatestSummary,
                    MessagesList ''in:sent subject:"Re: Daily Email Summary" after:1700000000'' 10,
                    GetMessageContent ''r1'',
                    Complete (buildParsePrompt ''Archive EMAIL-001'' None), ArchiveEmail ''a'',
                    GetMessageContent ''r2'',
                    Complete (buildParsePrompt ''Archive EMAIL-001'' None), ArchiveEmail ''a'',
                    GetMessageContent ''r3'',
                    Complete (buildParsePrompt ''Archive EMAIL-001'' None)] \<rparr>)\<close>
proof -
  let ?stored = "summaryToStorable (\<lambda>t. ''2023-11-14T22:13:20.000Z'') summary_demo None (Some ''m1'')"
  let ?m = "loaded_emailMappings (loadStoredSummary ?stored)"
  let ?p = "buildParsePrompt ''Archive EMAIL-001'' None"
  let ?r1 = "\<lparr> msg_id = Some ''r1'' \<rparr>" and ?r2 = "\<lparr> msg_id = Some ''r2'' \<rparr>"
    and ?r3 = "\<lparr> msg_id = Some ''r3'' \<rparr>"
  let ?post = "map (\<lambda>r. \<lparr> msg_id = Some r \<rparr>) [''r4'', ''r5'', ''r6'', ''r7'', ''r8'', ''r9'', ''r10'']"
  let ?t2 = \<open>[LoadLatestSummary,
             MessagesList ''in:sent subject:"Re: Daily Email Summary" after:1700000000'' 10]\<close>
  let ?s2 = "\<lparr> ext = 0, trace = ?t2 \<rparr> :: nat st"
  let ?t3 = "?t2 @ [GetMessageContent ''r1'', Complete ?p, ArchiveEmail ''a'']"
  let ?s3 = "\<lparr> ext = 1, trace = ?t3 \<rparr> :: nat st"
  let ?t4 = "?t3 @ [GetMessageContent ''r2'', Complete ?p, ArchiveEmail ''a'']"
  let ?s4 = "\<lparr> ext = 2, trace = ?t4 \<rparr> :: nat st"
  let ?s5 = "\<lparr> ext = 3, trace = ?t4 @ [GetMessageContent ''r3'', Complete ?p] \<rparr> :: nat st"
  have load: "loadLatestSummary env_demo2 (ext s0) = (Some ?stored, 0)"
    by (simp add: s0_def env_demo2_fields)
  have search: "searchReplies env_demo2 ''Daily Email Summary''
        (Date_parse env_demo2 (stored_generatedAt ?stored))
        \<lparr> ext = 0, trace = trace s0 @ [LoadLatestSummary] \<rparr>
      = (Inr ([?r1, ?r2] @ ?r3 # ?post), ?s2)"
    by (simp add: searchReplies_def invoke_def s0_def env_demo2_fields after_demo)
  have one: "processReplies cfg_demo env_demo2 ?m [?r1] [] ?s2 = (Inr [result_demo], ?s3)"
    by (simp add: processReply_demo2)
  have two: "processReply cfg_demo env_demo2 ?m ?r2 ?s3 = (Inr [result_demo], ?s4)"
    by (simp add: processReply_demo2)
  have r3: "msg_id ?r3 = Some ''r3'' \<and> ''r3'' \<noteq> []"
    by simp
  have content: "message_content env_demo2 ''r3'' 2 = (Inr ''Archive EMAIL-001'', 2)"
    by (simp add: env_demo2_fields)
  have nonblank: "trim ''Archive EMAIL-001'' \<noteq> []"
    by (simp add: trim_demo)
  have answer: "complete env_demo2 ?p 2 = (Inr ''Sorry, I cannot do that.'', 3)"
    by (simp add: env_demo2_fields)
  have bad: "JSON_parse env_demo2 (extract_json ''Sorry, I cannot do that.'') = None"
    by (simp add: env_demo2_fields)
  note inst = parse_failure_aborts_pass [where cfg = cfg_demo and env = env_demo2 and m = ?m
      and acc = "[]" and rid = "''r3''" and content' = "''Archive EMAIL-001''" and wa = 2
      and answer = "''Sorry, I cannot do that.''" and wb = 3 and post = ?post
      and stored = ?stored and va = 0 and ta = ?s2]
  have both: "processReplies cfg_demo env_demo2 ?m ([?r1] @ [?r2]) [] ?s2
                = (Inr ([result_demo] @ [result_demo]), ?s4)"
    using inst [where pre = "[?r1]" and s = ?s2 and acca = "[result_demo]" and sa = ?s3
        and reply = ?r2 and results = "[result_demo]" and sb = ?s4 and tb = ?s4] one two
    by blast
  have both': "processReplies cfg_demo env_demo2 ?m [?r1, ?r2] [] ?s2
                = (Inr [result_demo, result_demo], ?s4)"
    using both by simp
  have loop: "processReplies cfg_demo env_demo2 ?m ([?r1, ?r2] @ ?r3 # ?post) [] ?s2
                = (Inl (Error ''Failed to parse JSON from Claude response''), ?s5)"
    using inst [where pre = "[?r1, ?r2]" and s = ?s2 and acca = "[result_demo, result_demo]"
        and sa = ?s4 and reply = ?r3 and results = "[]" and sb = ?s4 and tb = ?s4]
      both' r3 content nonblank answer bad
    by simp
  have pass: "processReplyCommands cfg_demo env_demo2 s0
                = (Inl (Error ''Failed to parse JSON from Claude response''), ?s5)"
    using inst [where pre = "[?r1, ?r2]" and s = s0 and acca = "[result_demo, result_demo]"
        and sa = ?s4 and reply = ?r3 and results = "[]" and sb = ?s4 and tb = ?s4]
      load search both' r3 content nonblank answer bad
    by simp
  show ?thesis
    using load search one two both r3 content nonblank answer bad loop pass
    by simp
qed

subsection \<open>The mapping of a summary\<close>

lemma generateReferenceId_value: "read_decimal (drop 6 (generateReferenceId i)) = i + 1"
  by (simp add: generateReferenceId_def padStart_def read_decimal_zeros
      read_decimal_number_toString)

lemma generateReferenceId_inj: "generateReferenceId i = generateReferenceId j \<Longrightarrow> i = j"
proof -
  assume "generateReferenceId i = generateReferenceId j"
  then have "read_decimal (drop 6 (generateReferenceId i))
             = read_decimal (drop 6 (generateReferenceId j))"
    by simp
  then show "i = j" by (simp add: generateReferenceId_value)
qed

lemma getEmail_referenceId:
  "getEmail env mid i s = (Inr email, s') \<Longrightarrow> referenceId email = generateReferenceId i"
  by (auto simp: getEmail_def split: prod.splits sum.splits)

lemma fetchEmails_tokens:
  "fetchEmails env msgs i emails s = (Inr out, s') \<Longrightarrow>
     \<exists>idxs. map referenceId out = map referenceId emails @ map generateReferenceId idxs
          \<and> sorted_wrt (<) idxs \<and> (\<forall>k\<in>set idxs. i \<le> k)"
proof (induction msgs arbitrary: i emails s)
  case Nil
  then have "out = emails" by simp
  then have "map referenceId out = map referenceId emails @ map generateReferenceId []
          \<and> sorted_wrt (<) ([] :: nat list) \<and> (\<forall>k\<in>set ([] :: nat list). i \<le> k)"
    by simp
  then show ?case by blast
next
  case (Cons msg msgs)
  show ?case
  proof (cases "msg_id msg = None \<or> msg_id msg = Some []")
    case True
    then have "fetchEmails env msgs (i + 1) emails s = (Inr out, s')"
      using Cons.prems by (auto split: option.splits)
    from Cons.IH [OF this] obtain idxs where
      "map referenceId out = map referenceId emails @ map generateReferenceId idxs"
      "sorted_wrt (<) idxs" "\<forall>k\<in>set idxs. i + 1 \<le> k"
      by blast
    then have "map referenceId out = map referenceId emails @ map generateReferenceId idxs
          \<and> sorted_wrt (<) idxs \<and> (\<forall>k\<in>set idxs. i \<le> k)"
      by auto
    then show ?thesis by blast
  next
    case False
    then obtain mid where mid: "msg_id msg = Some mid" "mid \<noteq> []"
      by (cases "msg_id msg") auto
    obtain r s1 where g: "getEmail env mid i s = (r, s1)"
      by (cases "getEmail env mid i s")
    with mid Cons.prems obtain email where email: "r = Inr email"
      by (cases r) auto
    with mid g Cons.prems have
      "fetchEmails env msgs (i + 1) (emails @ [email]) s1 = (Inr out, s')"
      by simp
    from Cons.IH [OF this] obtain idxs where idxs:
      "map referenceId out = map referenceId (emails @ [email]) @ map generateReferenceId idxs"
      "sorted_wrt (<) idxs" "\<forall>k\<in>set idxs. i + 1 \<le> k"
      by blast
    have tok: "referenceId email = generateReferenceId i"
      using g email by (auto dest: getEmail_referenceId)
    have "map referenceId out = map referenceId emails @ map generateReferenceId (i # idxs)
          \<and> sorted_wrt (<) (i # idxs) \<and> (\<forall>k\<in>set (i # idxs). i \<le> k)"
      using idxs tok by auto
    then show ?thesis by blast
  qed
qed

lemma listRecentEmails_distinct:
  "listRecentEmails cfg env hoursBack s = (Inr emails, s') \<Longrightarrow> distinct (map referenceId emails)"
proof -
  assume a: "listRecentEmails cfg env hoursBack s = (Inr emails, s')"
  then obtain msgs s1 where "fetchEmails env msgs 0 [] s1 = (Inr emails, s')"
    by (auto simp: listRecentEmails_def Let_def split: prod.splits sum.splits)
  from fetchEmails_tokens [OF this] obtain idxs where
    idxs: "map referenceId emails = map generateReferenceId idxs" "sorted_wrt (<) idxs"
    by auto
  have "distinct idxs" using idxs(2) by (simp add: strict_sorted_iff)
  moreover have "inj_on generateReferenceId (set idxs)"
    by (auto simp: inj_on_def dest: generateReferenceId_inj)
  ultimately show ?thesis
    unfolding idxs(1) by (simp add: distinct_map)
qed

lemma createSummary_emailMappings:
  "distinct (map referenceId emails) \<Longrightarrow>
     emailMappings (createSummary uuid now emails response)
       = map (\<lambda>e. (referenceId e, email_id e)) emails"
proof -
  assume d: "distinct (map referenceId emails)"
  have f: "fold (\<lambda>email m. Map_set (referenceId email) (email_id email) m) emails []
        = fold (\<lambda>(k, v). Map_set k v) (map (\<lambda>e. (referenceId e, email_id e)) emails) []"
    by (simp add: fold_map comp_def)
  have "distinct (map fst ([] @ map (\<lambda>e. (referenceId e, email_id e)) emails))"
    using d by (simp add: comp_def)
  from fold_Map_set [OF this] f show ?thesis
    by (simp add: createSummary_def)
qed

text \<open>
  Claim C7. For every batch of N messages fetched by \<open>listRecentEmails\<close>, the Summary
  built from it has a mapping with exactly N entries, one per message and in batch order:
  the key is the message's reference token, the value its provider id, the keys are
  pairwise distinct, and looking up the token of any message of the batch gives its
  provider id. The model's response (how many items it surfaces) plays no part.
\<close>

theorem createSummary_mapping_complete:
  assumes "listRecentEmails cfg env hoursBack s = (Inr emails, s')"
  shows "emailMappings (createSummary uuid now emails response)
           = map (\<lambda>e. (referenceId e, email_id e)) emails
         \<and> length (emailMappings (createSummary uuid now emails response)) = length emails
         \<and> distinct (map fst (emailMappings (createSummary uuid now emails response)))
         \<and> list_all (\<lambda>e. Map_get (emailMappings (createSummary uuid now emails response))
                            (referenceId e) = Some (email_id e)) emails"
proof -
  have d: "distinct (map referenceId emails)"
    using assms by (rule listRecentEmails_distinct)
  have m: "emailMappings (createSummary uuid now emails response)
           = map (\<lambda>e. (referenceId e, email_id e)) emails"
    using d by (rule createSummary_emailMappings)
  have keys: "map fst (map (\<lambda>e. (referenceId e, email_id e)) emails) = map referenceId emails"
    by (simp add: comp_def)
  have look: "list_all (\<lambda>e. map_of (map (\<lambda>e. (referenceId e, email_id e)) emails)
                            (referenceId e) = Some (email_id e)) emails"
    unfolding list_all_iff
  proof
    fix e assume "e \<in> set emails"
    then have "(referenceId e, email_id e) \<in> set (map (\<lambda>e. (referenceId e, email_id e)) emails)"
      by auto
    moreover have "distinct (map fst (map (\<lambda>e. (referenceId e, email_id e)) emails))"
      unfolding keys by (rule d)
    ultimately show "map_of (map (\<lambda>e. (referenceId e, email_id e)) emails) (referenceId e)
                 = Some (email_id e)"
      by (intro map_of_is_SomeI)
  qed
  show ?thesis
    using d look by (simp add: m Map_get_def comp_def)
qed

lemma two_messages_demo:
  "take 2 (map (\<lambda>i. \<lparr> msg_id = Some (''r'' @ number_toString i) \<rparr>) [1..<13])
     = [\<lparr> msg_id = Some ''r1'' \<rparr>, \<lparr> msg_id = Some ''r2'' \<rparr>]"
  by code_simp

lemma tokens_demo:
  "generateReferenceId 0 = ''EMAIL-001''" "generateReferenceId (Suc 0) = ''EMAIL-002''"
  by code_simp+

theorem createSummary_mapping_complete_witness:
  "fst (listRecentEmails (cfg_demo\<lparr>maxEmailsPerRun := 2\<rparr>) env_demo 24 s0)
     = Inr [email_demo\<lparr>email_id := ''r1'', referenceId := ''EMAIL-001''\<rparr>,
            email_demo\<lparr>email_id := ''r2'', referenceId := ''EMAIL-002''\<rparr>]
   \<and> emailMappings (createSummary ''id-1'' 1700000000000
         [email_demo\<lparr>email_id := ''r1'', referenceId := ''EMAIL-001''\<rparr>,
          email_demo\<lparr>email_id := ''r2'', referenceId := ''EMAIL-002''\<rparr>]
         \<lparr> resp_executiveSummary = ''Nothing urgent.'', resp_actionItems = [],
           resp_informational = [] \<rparr>)
       = [(''EMAIL-001'', ''r1''), (''EMAIL-002'', ''r2'')]"
proof -
  let ?emails = "[email_demo\<lparr>email_id := ''r1'', referenceId := ''EMAIL-001''\<rparr>,
                  email_demo\<lparr>email_id := ''r2'', referenceId := ''EMAIL-002''\<rparr>]"
  have ml: "messages_list env_demo q 2 w =
      (Inr (Some [\<lparr> msg_id = Some ''r1'' \<rparr>, \<lparr> msg_id = Some ''r2'' \<rparr>]), w)" for q w
    using two_messages_demo by (simp add: env_demo_def)
  have mg: "messages_get env_demo mid w = (Inr (email_demo\<lparr>email_id := mid\<rparr>), w)" for mid w
    by (simp add: env_demo_def)
  have ev: "fst (listRecentEmails (cfg_demo\<lparr>maxEmailsPerRun := 2\<rparr>) env_demo 24 s0) = Inr ?emails"
    by (simp add: listRecentEmails_def cfg_demo_def invoke_def s0_def ml getEmail_def mg
        tokens_demo)
  then have run: "listRecentEmails (cfg_demo\<lparr>maxEmailsPerRun := 2\<rparr>) env_demo 24 s0
      = (Inr ?emails, snd (listRecentEmails (cfg_demo\<lparr>maxEmailsPerRun := 2\<rparr>) env_demo 24 s0))"
    by (metis prod.collapse)
  show ?thesis
    using ev
      createSummary_mapping_complete [OF run, of "''id-1''" 1700000000000
        "\<lparr> resp_executiveSummary = ''Nothing urgent.'', resp_actionItems = [],
           resp_informational = [] \<rparr>"]
    by simp
qed

subsection \<open>Counting the calls of a pass\<close>

lemma invoke_trace: "invoke c f s = (r, s') \<Longrightarrow> trace s' = trace s @ [c]"
  by (auto simp: invoke_def split: prod.splits)

lemma count_calls_getEmail:
  "getEmail env mid i s = (r, s') \<Longrightarrow> \<not> P (MessagesGet mid) \<Longrightarrow> count_calls P s' = count_calls P s"
  by (auto simp: getEmail_def count_calls_def split: prod.splits sum.splits dest!: invoke_trace)

lemma count_calls_mailbox_call:
  "mailbox_call env c s = (r, s') \<Longrightarrow> \<not> P c \<Longrightarrow> count_calls P s' = count_calls P s"
  by (auto simp: mailbox_call_def count_calls_def dest!: invoke_trace)

lemma count_calls_performCommand:
  assumes "performCommand env cmd gid s = (r, s')"
    and "P = is_Complete \<or> P = is_GetMessageContent"
  shows "count_calls P s' = count_calls P s"
proof -
  have np: "\<not> P (MessagesGet x)" "state_changing c \<Longrightarrow> \<not> P c" for x c
    using assms(2) by (cases c; auto)+
  show ?thesis
  proof (cases cmd)
    case (ReplyCommand x1 x2 x3)
    obtain r1 s1 where g: "getEmail env gid 0 s = (r1, s1)" by (cases "getEmail env gid 0 s")
    then have c1: "count_calls P s1 = count_calls P s"
      using np(1) by (rule count_calls_getEmail)
    show ?thesis
    proof (cases r1)
      case (Inl e)
      with g ReplyCommand assms(1) c1 show ?thesis by simp
    next
      case (Inr original)
      with g ReplyCommand assms(1) have
        "mailbox_call env (ReplyToEmail gid (threadId original) (address (email_from original))
               (subject original) (''<p>'' @ replace_newlines x3 @ ''</p>'')) s1 = (r, s')"
        by simp
      from count_calls_mailbox_call [OF this, of P] np(2) c1 show ?thesis by simp
    qed
  next
    case (ForwardCommand x1 x2 x3 x4)
    obtain r1 s1 where g: "getEmail env gid 0 s = (r1, s1)" by (cases "getEmail env gid 0 s")
    then have c1: "count_calls P s1 = count_calls P s"
      using np(1) by (rule count_calls_getEmail)
    show ?thesis
    proof (cases r1)
      case (Inl e)
      with g ForwardCommand assms(1) c1 show ?thesis by simp
    next
      case (Inr original)
      with g ForwardCommand assms(1) have
        "mailbox_call env (SendEmail x3 (''Fwd: '' @ subject original)
            (forwardBody env x4 original) None) s1 = (r, s')"
        by simp
      from count_calls_mailbox_call [OF this, of P] np(2) c1 show ?thesis by simp
    qed
  qed (use assms(1) np(2) in \<open>auto dest!: count_calls_mailbox_call [where P = P]\<close>)
qed

lemma count_calls_executeCommand:
  assumes "P = is_Complete \<or> P = is_GetMessageContent"
  shows "count_calls P (snd (executeCommand cfg env cmd s)) = count_calls P s"
proof (cases "\<exists>g. targetGmailId cmd = Some g \<and> g \<noteq> [] \<and> \<not> dryRun cfg")
  case False
  then show ?thesis by (auto simp: executeCommand_def split: option.splits)
next
  case True
  then obtain g where g: "targetGmailId cmd = Some g" "g \<noteq> []" "\<not> dryRun cfg" by blast
  obtain r s' where p: "performCommand env cmd g s = (r, s')"
    by (cases "performCommand env cmd g s")
  from count_calls_performCommand [OF p assms] g p show ?thesis
    by (cases r) (simp_all add: executeCommand_def)
qed

lemma count_calls_executeCommands:
  assumes "P = is_Complete \<or> P = is_GetMessageContent"
  shows "count_calls P (snd (executeCommands cfg env cmds s)) = count_calls P s"
proof (induction cmds arbitrary: s)
  case Nil
  then show ?case by simp
next
  case (Cons cmd cmds)
  show ?case
    using Cons.IH [of "snd (executeCommand cfg env cmd s)"]
      count_calls_executeCommand [OF assms, of cfg env cmd s]
    by (simp add: split_beta)
qed

lemma parseCommands_trace:
  "parseCommands env userInput ctx s = (r, s') \<Longrightarrow>
     trace s' = trace s @ [Complete (buildParsePrompt userInput ctx)]"
  by (auto simp: parseCommands_def parseJson_def split: prod.splits sum.splits option.splits
      dest!: invoke_trace)

lemma getMessageContent_trace:
  "getMessageContent env rid s = (r, s') \<Longrightarrow> trace s' = trace s @ [GetMessageContent rid]"
  by (auto simp: getMessageContent_def dest!: invoke_trace)

lemma count_calls_processReply:
  assumes P: "P = is_Complete \<or> P = is_GetMessageContent"
  shows "count_calls P (snd (processReply cfg env m reply s)) \<le> count_calls P s + 1"
proof (cases "msg_id reply = None \<or> msg_id reply = Some []")
  case True
  then show ?thesis by (auto simp: processReply_def)
next
  case False
  then obtain rid where rid: "msg_id reply = Some rid" "rid \<noteq> []"
    by (cases "msg_id reply") auto
  obtain r1 s1 where g: "getMessageContent env rid s = (r1, s1)"
    by (cases "getMessageContent env rid s")
  have t1: "trace s1 = trace s @ [GetMessageContent rid]"
    using g by (rule getMessageContent_trace)
  have c1: "count_calls P s1 \<le> count_calls P s + 1"
    using P t1 by (auto simp: count_calls_def)
  show ?thesis
  proof (cases r1)
    case (Inl e)
    with rid g c1 show ?thesis by (simp add: processReply_def)
  next
    case (Inr content')
    show ?thesis
    proof (cases "trim content' = []")
      case True
      with Inr rid g c1 show ?thesis by (simp add: processReply_def)
    next
      case False
      obtain r2 s2 where p: "parseCommands env content' None s1 = (r2, s2)"
        by (cases "parseCommands env content' None s1")
      have t2: "trace s2 = trace s @ [GetMessageContent rid, Complete (buildParsePrompt content' None)]"
        using parseCommands_trace [OF p] t1 by simp
      have c2: "count_calls P s2 \<le> count_calls P s + 1"
        using P t2 by (auto simp: count_calls_def)
      show ?thesis
      proof (cases r2)
        case (Inl e)
        with Inr False rid g p c2 show ?thesis by (simp add: processReply_def)
      next
        case r2: (Inr a)
        obtain cmds un where a: "a = (cmds, un)" by (cases a)
        have "count_calls P (snd (executeCommands cfg env (map (resolveCommand m) cmds) s2))
                = count_calls P s2"
          using P by (rule count_calls_executeCommands)
        with Inr False rid g p r2 a c2 show ?thesis
          by (simp add: processReply_def split_beta)
      qed
    qed
  qed
qed

lemma count_calls_processReplies:
  assumes P: "P = is_Complete \<or> P = is_GetMessageContent"
  shows "count_calls P (snd (processReplies cfg env m replies acc s))
           \<le> count_calls P s + length replies"
proof (induction replies arbitrary: acc s)
  case Nil
  then show ?case by simp
next
  case (Cons reply replies)
  obtain r s1 where p: "processReply cfg env m reply s = (r, s1)"
    by (cases "processReply cfg env m reply s")
  have c1: "count_calls P s1 \<le> count_calls P s + 1"
    using count_calls_processReply [OF P, of cfg env m reply s] p by simp
  show ?case
  proof (cases r)
    case (Inl e)
    with p c1 show ?thesis by simp
  next
    case (Inr results)
    have "count_calls P (snd (processReplies cfg env m replies (acc @ results) s1))
            \<le> count_calls P s1 + length replies"
      by (rule Cons.IH)
    with Inr p c1 show ?thesis by simp
  qed
qed

lemma searchReplies_result:
  "searchReplies env subject' afterDate s = (r, s') \<Longrightarrow>
     \<exists>q. trace s' = trace s @ [MessagesList q 10]
        \<and> (\<forall>replies. r = Inr replies \<longrightarrow>
              replies = [] \<or> (\<exists>w w'. messages_list env q 10 w = (Inr (Some replies), w')))"
  by (auto simp: searchReplies_def Let_def invoke_def split: prod.splits sum.splits option.splits)

lemma searchReplies_length:
  assumes "respects_maxResults env" and "searchReplies env subject' afterDate s = (Inr replies, s')"
  shows "length replies \<le> 10"
proof -
  from searchReplies_result [OF assms(2)] have
    "replies = [] \<or> (\<exists>q w w'. messages_list env q 10 w = (Inr (Some replies), w'))"
    by blast
  with assms(1) show ?thesis
    unfolding respects_maxResults_def by (metis le0 list.size(3))
qed

lemma count_calls_processReplyCommands:
  assumes R: "respects_maxResults env" and P: "P = is_Complete \<or> P = is_GetMessageContent"
  shows "count_calls P (snd (processReplyCommands cfg env s)) \<le> count_calls P s + 10"
proof -
  obtain l s1 where l: "invoke LoadLatestSummary (loadLatestSummary env) s = (l, s1)"
    by (cases "invoke LoadLatestSummary (loadLatestSummary env) s")
  have c1: "count_calls P s1 = count_calls P s"
    using P invoke_trace [OF l] by (auto simp: count_calls_def)
  show ?thesis
  proof (cases l)
    case None
    with l c1 show ?thesis by (simp add: processReplyCommands_def)
  next
    case (Some storedSummary)
    let ?m = "loaded_emailMappings (loadStoredSummary storedSummary)"
    obtain r s2 where sr: "searchReplies env ''Daily Email Summary''
        (Date_parse env (stored_generatedAt storedSummary)) s1 = (r, s2)"
      by (cases "searchReplies env ''Daily Email Summary''
        (Date_parse env (stored_generatedAt storedSummary)) s1")
    have c2: "count_calls P s2 = count_calls P s"
      using P searchReplies_result [OF sr] c1 by (auto simp: count_calls_def)
    show ?thesis
    proof (cases r)
      case (Inl e)
      with Some l sr c2 show ?thesis by (simp add: processReplyCommands_def)
    next
      case (Inr replies)
      have len: "length replies \<le> 10"
        using R sr Inr by (auto intro: searchReplies_length)
      obtain r3 s3 where pr: "processReplies cfg env ?m replies [] s2 = (r3, s3)"
        by (cases "processReplies cfg env ?m replies [] s2")
      have c3: "count_calls P s3 \<le> count_calls P s + 10"
        using count_calls_processReplies [OF P, of cfg env ?m replies "[]" s2] pr c2 len by simp
      show ?thesis
      proof (cases "replies = []")
        case True
        with Some l sr Inr c2 show ?thesis by (simp add: processReplyCommands_def)
      next
        case False
        show ?thesis
        proof (cases r3)
          case (Inl e)
          with Some l sr Inr False pr c3 show ?thesis by (simp add: processReplyCommands_def)
        next
          case r3: (Inr allResults)
          show ?thesis
          proof (cases "allResults \<noteq> [] \<and> \<not> dryRun cfg")
            case False
            with Some l sr Inr \<open>replies \<noteq> []\<close> pr r3 c3 show ?thesis
              by (auto simp: processReplyCommands_def)
          next
            case True
            obtain r4 s4 where sc: "sendConfirmationEmail cfg env allResults s3 = (r4, s4)"
              by (cases "sendConfirmationEmail cfg env allResults s3")
            have "count_calls P s4 = count_calls P s3"
              using P sc
              by (auto simp: sendConfirmationEmail_def split: prod.splits
                  dest!: count_calls_mailbox_call [where P = P])
            with Some l sr Inr \<open>replies \<noteq> []\<close> pr r3 c3 True sc show ?thesis
              by (cases r4) (simp_all add: processReplyCommands_def)
          qed
        qed
      qed
    qed
  qed
qed

text \<open>
  Claim C10. The reply search asks the provider for at most 10 messages, so, the provider
  keeping to \<open>maxResults\<close>, it returns at most 10 candidate replies, and one
  command-intake pass reads the content of at most 10 replies and sends at most 10 of
  them to the language model for parsing; commands are only executed for replies that were
  parsed.
\<close>

theorem searchReplies_at_most_10:
  assumes "respects_maxResults env"
  shows "(searchReplies env subject' afterDate s = (Inr replies, s') \<longrightarrow> length replies \<le> 10)
         \<and> count_calls is_GetMessageContent (snd (processReplyCommands cfg env s1))
             \<le> count_calls is_GetMessageContent s1 + 10
         \<and> count_calls is_Complete (snd (processReplyCommands cfg env s1))
             \<le> count_calls is_Complete s1 + 10"
  using assms searchReplies_length [OF assms, of subject' afterDate s replies s']
    count_calls_processReplyCommands [OF assms, of is_GetMessageContent cfg s1]
    count_calls_processReplyCommands [OF assms, of is_Complete cfg s1]
  by blast

lemma env_demo_respects: "respects_maxResults env_demo"
  by (auto simp: respects_maxResults_def env_demo_def)

theorem searchReplies_at_most_10_witness:
  \<open>respects_maxResults env_demo
   \<and> (case fst (messages_list env_demo [] 50 0) of Inr (Some ms) \<Rightarrow> length ms | _ \<Rightarrow> 0) = 12
   \<and> searchReplies env_demo ''Daily Email Summary'' (Some 1700000000000) s0
       = (Inr (map (\<lambda>r. \<lparr> msg_id = Some r \<rparr>)
                 [''r1'', ''r2'', ''r3'', ''r4'', ''r5'', ''r6'', ''r7'', ''r8'', ''r9'', ''r10'']),
          \<lparr> ext = 0,
            trace = [MessagesList
                       ''in:sent subject:"Re: Daily Email Summary" after:1700000000'' 10] \<rparr>)
   \<and> length (map (\<lambda>r. \<lparr> msg_id = Some r \<rparr>)
                 [''r1'', ''r2'', ''r3'', ''r4'', ''r5'', ''r6'', ''r7'', ''r8'', ''r9'', ''r10''])
       \<le> 10
   \<and> count_calls is_GetMessageContent (snd (processReplyCommands cfg_demo env_demo s0))
       \<le> count_calls is_GetMessageContent s0 + 10
   \<and> count_calls is_Complete (snd (processReplyCommands cfg_demo env_demo s0))
       \<le> count_calls is_Complete s0 + 10\<close>
proof -
  have twelve:
    "(case fst (messages_list env_demo [] 50 0) of Inr (Some ms) \<Rightarrow> length ms | _ \<Rightarrow> 0) = 12"
    by (simp add: env_demo_def)
  have sr: \<open>searchReplies env_demo ''Daily Email Summary'' (Some 1700000000000) s0
       = (Inr (map (\<lambda>r. \<lparr> msg_id = Some r \<rparr>)
                 [''r1'', ''r2'', ''r3'', ''r4'', ''r5'', ''r6'', ''r7'', ''r8'', ''r9'', ''r10'']),
          \<lparr> ext = 0,
            trace = [MessagesList
                       ''in:sent subject:"Re: Daily Email Summary" after:1700000000'' 10] \<rparr>)\<close>
    by (simp add: searchReplies_def invoke_def s0_def after_demo env_demo_replies)
  show ?thesis
    using env_demo_respects twelve sr
      searchReplies_at_most_10 [OF env_demo_respects, of "''Daily Email Summary''"
        "Some 1700000000000" s0
        "map (\<lambda>r. \<lparr> msg_id = Some r \<rparr>)
           [''r1'', ''r2'', ''r3'', ''r4'', ''r5'', ''r6'', ''r7'', ''r8'', ''r9'', ''r10'']"
        "\<lparr> ext = 0,
           trace = [MessagesList
                      ''in:sent subject:\"Re: Daily Email Summary\" after:1700000000'' 10] \<rparr>"
        cfg_demo s0]
    by blast
qed

end
